theory Spec2Isabelle
  imports Complex_Main
begin

section \<open>Values, exceptions and library objects\<close>

text \<open>
  The prediction service of \<^verbatim>\<open>src/api/app/services/prediction_service.py\<close> is embedded
  function by function. The ambient random generator is a stream of draws indexed by a
  counter that is part of the state, and the calls into scikit-learn, numpy and the data
  providers are fields of an environment record.
\<close>

text \<open>
  A Python float is a real number, an infinity or NaN. Arithmetic follows IEEE 754 on the
  special values (NaN is absorbing, \<open>0 * inf\<close> and \<open>inf - inf\<close> are NaN); rounding, overflow
  and the sign of zero are not modelled.
\<close>

datatype pyfloat = Fin real | PInf | NInf | NaN

fun fneg :: "pyfloat \<Rightarrow> pyfloat" where
  "fneg (Fin a) = Fin (- a)"
| "fneg PInf = NInf"
| "fneg NInf = PInf"
| "fneg NaN = NaN"

fun fadd :: "pyfloat \<Rightarrow> pyfloat \<Rightarrow> pyfloat" where
  "fadd NaN y = NaN"
| "fadd x NaN = NaN"
| "fadd (Fin a) (Fin b) = Fin (a + b)"
| "fadd PInf NInf = NaN"
| "fadd NInf PInf = NaN"
| "fadd PInf y = PInf"
| "fadd x PInf = PInf"
| "fadd NInf y = NInf"
| "fadd x NInf = NInf"

definition fsub :: "pyfloat \<Rightarrow> pyfloat \<Rightarrow> pyfloat" where
  "fsub x y = fadd x (fneg y)"

text \<open>The infinity of the sign of a non-zero real.\<close>

definition inf_of_sign :: "real \<Rightarrow> pyfloat" where
  "inf_of_sign a = (if 0 < a then PInf else NInf)"

fun fmul :: "pyfloat \<Rightarrow> pyfloat \<Rightarrow> pyfloat" where
  "fmul NaN y = NaN"
| "fmul x NaN = NaN"
| "fmul (Fin a) (Fin b) = Fin (a * b)"
| "fmul (Fin a) PInf = (if a = 0 then NaN else inf_of_sign a)"
| "fmul (Fin a) NInf = (if a = 0 then NaN else inf_of_sign (- a))"
| "fmul PInf (Fin b) = (if b = 0 then NaN else inf_of_sign b)"
| "fmul NInf (Fin b) = (if b = 0 then NaN else inf_of_sign (- b))"
| "fmul PInf PInf = PInf"
| "fmul NInf NInf = PInf"
| "fmul PInf NInf = NInf"
| "fmul NInf PInf = NInf"

text \<open>
  Division of a numpy float: a zero divisor gives an infinity or NaN (with a warning), not
  an exception.
\<close>

fun fdiv :: "pyfloat \<Rightarrow> pyfloat \<Rightarrow> pyfloat" where
  "fdiv NaN y = NaN"
| "fdiv x NaN = NaN"
| "fdiv (Fin a) (Fin b) =
     (if b = 0 then (if a = 0 then NaN else inf_of_sign a) else Fin (a / b))"
| "fdiv (Fin a) PInf = Fin 0"
| "fdiv (Fin a) NInf = Fin 0"
| "fdiv PInf (Fin b) = (if 0 \<le> b then PInf else NInf)"
| "fdiv NInf (Fin b) = (if 0 \<le> b then NInf else PInf)"
| "fdiv PInf PInf = NaN"
| "fdiv PInf NInf = NaN"
| "fdiv NInf PInf = NaN"
| "fdiv NInf NInf = NaN"

text \<open>\<^verbatim>\<open>math.isfinite\<close>.\<close>

fun is_finite :: "pyfloat \<Rightarrow> bool" where
  "is_finite (Fin a) = True"
| "is_finite x = False"

fun is_inf :: "pyfloat \<Rightarrow> bool" where
  "is_inf PInf = True"
| "is_inf NInf = True"
| "is_inf x = False"

text \<open>
  The order in which numpy sorts floats: by value, NaN last. It is the order of
  \<open>sorted\<close> and \<open>sort_key\<close> on \<^typ>\<open>pyfloat\<close> below; it is not Python's \<^verbatim>\<open><=\<close>, which
  is false whenever an operand is NaN and which the service never applies to a float.
\<close>

fun sort_le :: "pyfloat \<Rightarrow> pyfloat \<Rightarrow> bool" where
  "sort_le x NaN = True"
| "sort_le NaN y = False"
| "sort_le NInf y = True"
| "sort_le x NInf = False"
| "sort_le x PInf = True"
| "sort_le PInf y = False"
| "sort_le (Fin a) (Fin b) = (a \<le> b)"

instantiation pyfloat :: linorder
begin

definition less_eq_pyfloat :: "pyfloat \<Rightarrow> pyfloat \<Rightarrow> bool" where
  "less_eq_pyfloat x y = sort_le x y"

definition less_pyfloat :: "pyfloat \<Rightarrow> pyfloat \<Rightarrow> bool" where
  "less_pyfloat x y = (sort_le x y \<and> \<not> sort_le y x)"

instance
proof
  fix x y z :: pyfloat
  show "(x < y) = (x \<le> y \<and> \<not> y \<le> x)"
    by (simp add: less_pyfloat_def less_eq_pyfloat_def)
  show "x \<le> x"
    unfolding less_eq_pyfloat_def by (cases x) simp_all
  show "x \<le> y \<Longrightarrow> y \<le> z \<Longrightarrow> x \<le> z"
    unfolding less_eq_pyfloat_def by (cases x; cases y; cases z) simp_all
  show "x \<le> y \<Longrightarrow> y \<le> x \<Longrightarrow> x = y"
    unfolding less_eq_pyfloat_def by (cases x; cases y) simp_all
  show "x \<le> y \<or> y \<le> x"
    unfolding less_eq_pyfloat_def by (cases x; cases y) auto
qed

end

text \<open>A JSON-like Python value (\<^verbatim>\<open>Any\<close> in the request models).\<close>

datatype pyval =
    PNone
  | PBool bool
  | PNum pyfloat
  | PStr string
  | PList "pyval list"
  | PDict "(string \<times> pyval) list"

datatype exn = NotFittedError | ValueError | TypeError | IndexError | KeyError | OtherError

text \<open>Python truthiness, as used by \<^verbatim>\<open>if weights.chaos_mode:\<close>.\<close>

fun truthy :: "pyval \<Rightarrow> bool" where
  "truthy PNone = False"
| "truthy (PBool b) = b"
| "truthy (PNum x) = (x \<noteq> Fin 0)"
| "truthy (PStr s) = (s \<noteq> [])"
| "truthy (PList vs) = (vs \<noteq> [])"
| "truthy (PDict kvs) = (kvs \<noteq> [])"

text \<open>
  \<^verbatim>\<open>w * z\<close> for a weight \<open>w\<close> of any type and a float \<open>z\<close>: numbers multiply (a bool is
  the integer 0 or 1), every other operand type raises \<^verbatim>\<open>TypeError\<close>.
\<close>

fun py_mul :: "pyval \<Rightarrow> pyfloat \<Rightarrow> exn + pyfloat" where
  "py_mul (PNum x) z = Inr (fmul x z)"
| "py_mul (PBool b) z = Inr (fmul (Fin (if b then 1 else 0)) z)"
| "py_mul PNone z = Inl TypeError"
| "py_mul (PStr s) z = Inl TypeError"
| "py_mul (PList vs) z = Inl TypeError"
| "py_mul (PDict kvs) z = Inl TypeError"

text \<open>\<^verbatim>\<open>len(v)\<close>: defined on strings, lists and dicts, \<^verbatim>\<open>TypeError\<close> otherwise.\<close>

fun py_len :: "pyval \<Rightarrow> exn + nat" where
  "py_len (PStr s) = Inr (length s)"
| "py_len (PList vs) = Inr (length vs)"
| "py_len (PDict kvs) = Inr (length kvs)"
| "py_len PNone = Inl TypeError"
| "py_len (PBool b) = Inl TypeError"
| "py_len (PNum x) = Inl TypeError"

text \<open>\<^verbatim>\<open>d.get(k, default)\<close> on a dict.\<close>

definition dict_get :: "('k \<rightharpoonup> 'v) \<Rightarrow> 'k \<Rightarrow> 'v \<Rightarrow> 'v" where
  "dict_get d k dflt = (case d k of None \<Rightarrow> dflt | Some v \<Rightarrow> v)"

type_synonym datetime = nat

text \<open>\<^verbatim>\<open>WeatherData\<close> of \<^verbatim>\<open>weather_service.py\<close>.\<close>

record weather_data =
  timestamp :: datetime
  temperature_c :: pyfloat
  wind_kph :: pyfloat
  precipitation_prob :: pyfloat
  precipitation_mm :: pyfloat
  cloud_percentage :: int
  humidity_percentage :: int
  pressure_hpa :: pyfloat
  weather_condition :: string
  is_wet :: bool

text \<open>
  scikit-learn estimators. An estimator is created unfitted; \<^verbatim>\<open>transform\<close>,
  \<^verbatim>\<open>predict\<close> and \<^verbatim>\<open>feature_importances_\<close> of an unfitted estimator raise
  \<^verbatim>\<open>NotFittedError\<close> (the library's \<^verbatim>\<open>check_is_fitted\<close>), and a fitted one rejects a
  matrix whose column count differs from the one it was fitted on with \<^verbatim>\<open>ValueError\<close>.
  A fitted regressor is its column count, its prediction function on a row and its
  importances; a fitted median imputer is its per-column statistics.
\<close>

datatype regressor =
    UnfittedRegressor
  | FittedRegressor (n_features_in: nat) (predict_row: "real list \<Rightarrow> real")
      (importances: "real list")

datatype simple_imputer =
    UnfittedImputer
  | FittedImputer (statistics: "pyfloat list")

fun fin_value :: "pyfloat \<Rightarrow> real" where
  "fin_value (Fin a) = a"
| "fin_value x = 0"

text \<open>
  \<^verbatim>\<open>predict\<close> validates its input. The matrices that reach it from \<^verbatim>\<open>predict_race\<close>
  went through the imputer, which has filled or dropped every NaN and rejected every
  infinity, so they hold finite numbers only.
\<close>

definition regressor_predict :: "regressor \<Rightarrow> pyfloat list list \<Rightarrow> exn + pyfloat list" where
  "regressor_predict m X =
     (case m of
        UnfittedRegressor \<Rightarrow> Inl NotFittedError
      | FittedRegressor n f imps \<Rightarrow>
          if list_all (\<lambda>row. length row = n \<and> list_all is_finite row) X
          then Inr (map (\<lambda>row. Fin (f (map fin_value row))) X)
          else Inl ValueError)"

definition feature_importances :: "regressor \<Rightarrow> exn + real list" where
  "feature_importances m =
     (case m of
        UnfittedRegressor \<Rightarrow> Inl NotFittedError
      | FittedRegressor n f imps \<Rightarrow> Inr imps)"

text \<open>
  \<^verbatim>\<open>SimpleImputer(strategy="median")\<close>: NaN is the missing value. \<^verbatim>\<open>fit\<close> learns the
  median of the observed cells of each column (NaN for a column without any);
  \<^verbatim>\<open>transform\<close> replaces each NaN by its column's statistic and drops the columns whose
  statistic is NaN. Both reject an infinite cell with \<^verbatim>\<open>ValueError\<close>.
\<close>

definition median :: "real list \<Rightarrow> real" where
  "median xs =
     (let s = sort xs; n = length s
      in if odd n then s ! (n div 2) else (s ! (n div 2 - 1) + s ! (n div 2)) / 2)"

definition column_statistic :: "pyfloat list \<Rightarrow> pyfloat" where
  "column_statistic col =
     (let observed = map fin_value (filter is_finite col)
      in if observed = [] then NaN else Fin (median observed))"

definition imputer_fit :: "pyfloat list list \<Rightarrow> exn + simple_imputer" where
  "imputer_fit X =
     (if list_ex (list_ex is_inf) X then Inl ValueError
      else Inr (FittedImputer (map column_statistic (transpose X))))"

definition fill_row :: "pyfloat list \<Rightarrow> pyfloat list \<Rightarrow> pyfloat list" where
  "fill_row stats row =
     map (\<lambda>(st, c). if c = NaN then st else c) (filter (\<lambda>(st, c). st \<noteq> NaN) (zip stats row))"

definition imputer_transform ::
  "simple_imputer \<Rightarrow> pyfloat list list \<Rightarrow> exn + pyfloat list list" where
  "imputer_transform imp X =
     (case imp of
        UnfittedImputer \<Rightarrow> Inl NotFittedError
      | FittedImputer stats \<Rightarrow>
          if list_all (\<lambda>row. length row = length stats) X \<and> \<not> list_ex (list_ex is_inf) X
          then Inr (map (fill_row stats) X)
          else Inl ValueError)"

definition imputer_fit_transform ::
  "pyfloat list list \<Rightarrow> exn + simple_imputer \<times> pyfloat list list" where
  "imputer_fit_transform X =
     (case imputer_fit X of
        Inl e \<Rightarrow> Inl e
      | Inr imp \<Rightarrow>
          (case imputer_transform imp X of
             Inl e \<Rightarrow> Inl e
           | Inr X' \<Rightarrow> Inr (imp, X')))"

section \<open>PredictionWeights and DriverPrediction\<close>

record prediction_weights =
  track_suitability :: pyval
  clean_air_pace :: pyval
  qualifying_importance :: pyval
  team_form :: pyval
  weather_impact :: pyval
  chaos_mode :: pyval

text \<open>
  \<^verbatim>\<open>PredictionWeights(**mapping)\<close> with \<^verbatim>\<open>__init__(self, **kwargs)\<close>, lines 18-25. The
  name \<^verbatim>\<open>self\<close> is already bound to the new object, so a mapping with the key
  \<^verbatim>\<open>"self"\<close> raises \<^verbatim>\<open>TypeError\<close> (multiple values for the argument) before the body
  runs; every other string is accepted as a keyword.
\<close>

definition PredictionWeights :: "(string \<rightharpoonup> pyval) \<Rightarrow> exn + prediction_weights" where
  "PredictionWeights kwargs =
     (if kwargs ''self'' \<noteq> None then Inl TypeError
      else Inr
        \<lparr> track_suitability = dict_get kwargs ''track_suitability'' (PNum (Fin 0.85)),
          clean_air_pace = dict_get kwargs ''clean_air_pace'' (PNum (Fin 0.90)),
          qualifying_importance = dict_get kwargs ''qualifying_importance'' (PNum (Fin 0.85)),
          team_form = dict_get kwargs ''team_form'' (PNum (Fin 0.68)),
          weather_impact = dict_get kwargs ''weather_impact'' (PNum (Fin 0.45)),
          chaos_mode = dict_get kwargs ''chaos_mode'' (PBool False) \<rparr>)"

record driver_prediction =
  driver :: string
  team :: string
  predicted_time :: pyfloat
  win_probability :: real
  top3_probability :: real

section \<open>The service: tables, environment and state\<close>

text \<open>\<^verbatim>\<open>PredictionService.__init__\<close>, lines 39-69. Dicts that are iterated keep their order.\<close>

definition feature_names :: "string list" where
  "feature_names =
     [''qualifying_time'', ''rain_probability'', ''temperature'',
      ''team_performance_score'', ''clean_air_pace'', ''average_position_change'']"

definition driver_to_team :: "(string \<times> string) list" where
  "driver_to_team =
     [(''VER'', ''Red Bull''), (''NOR'', ''McLaren''), (''PIA'', ''McLaren''),
      (''LEC'', ''Ferrari''), (''RUS'', ''Mercedes''), (''HAM'', ''Mercedes''),
      (''GAS'', ''Alpine''), (''ALO'', ''Aston Martin''), (''TSU'', ''Racing Bulls''),
      (''SAI'', ''Ferrari''), (''HUL'', ''Kick Sauber''), (''OCO'', ''Alpine''),
      (''STR'', ''Aston Martin''), (''ALB'', ''Williams''), (''COL'', ''Williams''),
      (''MAG'', ''Haas''), (''BOT'', ''Kick Sauber''), (''ZHO'', ''Kick Sauber''),
      (''RIC'', ''Racing Bulls'')]"

definition team_performance_scores :: "string \<rightharpoonup> real" where
  "team_performance_scores =
     map_of
       [(''McLaren'', 279/279), (''Mercedes'', 147/279), (''Red Bull'', 131/279),
        (''Williams'', 51/279), (''Ferrari'', 114/279), (''Haas'', 20/279),
        (''Aston Martin'', 14/279), (''Kick Sauber'', 6/279),
        (''Racing Bulls'', 10/279), (''Alpine'', 7/279)]"

definition average_position_change :: "string \<rightharpoonup> (string \<rightharpoonup> real)" where
  "average_position_change =
     map_of
       [(''Monaco'',
         map_of
           [(''VER'', -1.0), (''NOR'', 1.0), (''PIA'', 0.2), (''RUS'', 0.5),
            (''SAI'', -0.3), (''ALB'', 0.8), (''LEC'', -1.5), (''OCO'', -0.2),
            (''HAM'', 0.3), (''STR'', 1.1), (''GAS'', -0.4), (''ALO'', -0.6),
            (''HUL'', 0.0)])]"

text \<open>
  A row of the qualifying results frame of \<^verbatim>\<open>fastf1_service.get_qualifying_results\<close>.
  A session time the provider gave as \<^verbatim>\<open>None\<close> is NaN in a column that holds a number
  for some other driver, and stays \<^verbatim>\<open>None\<close> in a column that holds no number at all.
\<close>

record quali_row =
  row_driver :: string
  row_q1 :: "pyfloat option"
  row_q2 :: "pyfloat option"
  row_q3 :: "pyfloat option"

text \<open>
  Everything the service calls but does not define: the weather and race-data providers,
  the clock, the random generator (\<open>normal mu sigma k\<close> is the \<open>k\<close>-th draw of
  \<^verbatim>\<open>np.random.normal(mu, sigma)\<close>), \<^verbatim>\<open>np.argsort\<close>, the scikit-learn training steps on
  request data, and whether the model file can be written. A provider call that fails
  is one that returns nothing (\<open>None\<close> or the empty result): the service catches every
  provider exception and takes the same fallback.
\<close>

record env =
  get_weather_forecast :: "string \<Rightarrow> datetime \<Rightarrow> weather_data option"
  get_clean_air_race_pace :: "int \<Rightarrow> string \<Rightarrow> (string \<times> pyfloat) list"
  get_qualifying_results :: "int \<Rightarrow> string \<Rightarrow> quali_row list option"
  now :: datetime
  normal :: "real \<Rightarrow> real \<Rightarrow> nat \<Rightarrow> real"
  argsort :: "pyfloat list \<Rightarrow> nat list"
  np_array :: "pyval list \<Rightarrow> exn + pyval list"
  fit_transform :: "pyval list \<Rightarrow> exn + simple_imputer \<times> pyfloat list list"
  train_test_split ::
    "pyfloat list list \<Rightarrow> pyval list
       \<Rightarrow> exn + (pyfloat list list \<times> pyfloat list list \<times> pyval list \<times> pyval list)"
  fit :: "pyfloat list list \<Rightarrow> pyval list \<Rightarrow> exn + regressor"
  mean_absolute_error :: "pyval list \<Rightarrow> pyfloat list \<Rightarrow> exn + real"
  disk_writable :: bool

text \<open>The dict pickled by \<^verbatim>\<open>_save_model\<close>, and the model file on disk.\<close>

record model_data =
  md_model :: "regressor option"
  md_imputer :: "simple_imputer option"
  md_feature_names :: "string list"
  md_trained_at :: datetime

datatype model_file = NoFile | Unloadable | Pickled model_data

text \<open>
  The mutable state: the two attributes \<^verbatim>\<open>self.model\<close> and \<^verbatim>\<open>self.imputer\<close>
  (\<open>None\<close> is Python's \<^verbatim>\<open>None\<close>), the model file and the position of the random stream.
\<close>

record service =
  model :: "regressor option"
  imputer :: "simple_imputer option"
  disk :: model_file
  rng_pos :: nat

text \<open>\<^verbatim>\<open>_create_default_model\<close>, lines 90-99: two fresh, unfitted estimators.\<close>

definition create_default_model :: "service \<Rightarrow> service" where
  "create_default_model s =
     s\<lparr> model := Some UnfittedRegressor, imputer := Some UnfittedImputer \<rparr>"

text \<open>
  \<^verbatim>\<open>load_model\<close>, lines 73-88. A file whose unpickling or whose two subscripts raise is
  \<open>Unloadable\<close>; the handler logs and falls through to the default model.
\<close>

definition load_model :: "service \<Rightarrow> service" where
  "load_model s =
     (case disk s of
        Pickled md \<Rightarrow> s\<lparr> model := md_model md, imputer := md_imputer md \<rparr>
      | Unloadable \<Rightarrow> create_default_model s
      | NoFile \<Rightarrow> create_default_model s)"

text \<open>\<^verbatim>\<open>__init__\<close>, lines 36-71, on a given disk and random stream position.\<close>

definition init :: "model_file \<Rightarrow> nat \<Rightarrow> service" where
  "init f k = load_model \<lparr> model = None, imputer = None, disk = f, rng_pos = k \<rparr>"

text \<open>\<^verbatim>\<open>_save_model\<close>, lines 436-453; a failing write is logged and swallowed.\<close>

definition save_model :: "env \<Rightarrow> service \<Rightarrow> service" where
  "save_model E s =
     (if disk_writable E
      then s\<lparr> disk := Pickled \<lparr> md_model = model s, md_imputer = imputer s,
                               md_feature_names = feature_names,
                               md_trained_at = now E \<rparr> \<rparr>
      else s)"

text \<open>\<^verbatim>\<open>get_feature_importance\<close>, lines 455-463.\<close>

definition get_feature_importance :: "service \<Rightarrow> exn + (string \<times> real) list" where
  "get_feature_importance s =
     (case model s of
        None \<Rightarrow> Inr []
      | Some m \<Rightarrow>
          (case feature_importances m of
             Inl e \<Rightarrow> Inl e
           | Inr imps \<Rightarrow> Inr (zip feature_names imps)))"

section \<open>Feature construction\<close>

text \<open>A row of \<^verbatim>\<open>features_df\<close>, one field per column of \<open>feature_names\<close>.\<close>

record features =
  col_qualifying_time :: pyfloat
  col_rain_probability :: pyfloat
  col_temperature :: pyfloat
  col_team_performance_score :: pyfloat
  col_clean_air_pace :: pyfloat
  col_average_position_change :: pyfloat

definition row_values :: "features \<Rightarrow> pyfloat list" where
  "row_values r =
     [col_qualifying_time r, col_rain_probability r, col_temperature r,
      col_team_performance_score r, col_clean_air_pace r, col_average_position_change r]"

text \<open>Lines 113-126 of \<^verbatim>\<open>predict_race\<close>: the default weather object.\<close>

definition default_weather :: "env \<Rightarrow> weather_data" where
  "default_weather E =
     \<lparr> timestamp = now E, temperature_c = Fin 20.0, wind_kph = Fin 10.0,
       precipitation_prob = Fin 0.1, precipitation_mm = Fin 0.0, cloud_percentage = 30,
       humidity_percentage = 60, pressure_hpa = Fin 1013.25,
       weather_condition = ''clear'', is_wet = False \<rparr>"

text \<open>Lines 108-126: the forecast is asked for only when a race time is given.\<close>

definition race_weather :: "env \<Rightarrow> string \<Rightarrow> datetime option \<Rightarrow> weather_data" where
  "race_weather E event race_datetime =
     (let weather = (case race_datetime of
                       None \<Rightarrow> None
                     | Some dt \<Rightarrow> get_weather_forecast E event dt)
      in case weather of None \<Rightarrow> default_weather E | Some w \<Rightarrow> w)"

text \<open>\<^verbatim>\<open>_estimate_qualifying_time\<close>, lines 251-268; consumes one draw.\<close>

definition base_times :: "string \<rightharpoonup> real" where
  "base_times =
     map_of
       [(''Red Bull'', 70.5), (''McLaren'', 70.8), (''Ferrari'', 71.0),
        (''Mercedes'', 71.2), (''Aston Martin'', 71.5), (''Alpine'', 71.8),
        (''Williams'', 72.0), (''Racing Bulls'', 72.2), (''Haas'', 72.4),
        (''Kick Sauber'', 72.6)]"

definition driver_adjustments :: "string \<rightharpoonup> real" where
  "driver_adjustments =
     map_of
       [(''VER'', -0.3), (''NOR'', -0.1), (''LEC'', -0.2), (''HAM'', -0.1),
        (''RUS'', 0.0), (''PIA'', 0.1), (''ALO'', -0.1), (''SAI'', 0.0),
        (''STR'', 0.2), (''GAS'', 0.1)]"

definition estimate_qualifying_time ::
  "env \<Rightarrow> string \<Rightarrow> string \<Rightarrow> nat \<Rightarrow> pyfloat \<times> nat" where
  "estimate_qualifying_time E drv tm k =
     (let base_time = dict_get base_times tm 72.5;
          adjustment = dict_get driver_adjustments drv 0.0
      in (Fin (base_time + adjustment + normal E 0 0.1 k), Suc k))"

text \<open>\<^verbatim>\<open>_estimate_clean_air_pace\<close>, lines 270-278; consumes one draw.\<close>

definition base_pace :: "string \<rightharpoonup> real" where
  "base_pace =
     map_of
       [(''Red Bull'', 93.5), (''McLaren'', 93.7), (''Ferrari'', 94.0),
        (''Mercedes'', 94.2), (''Aston Martin'', 95.0), (''Alpine'', 95.5),
        (''Williams'', 95.8), (''Racing Bulls'', 96.0), (''Haas'', 96.2),
        (''Kick Sauber'', 96.5)]"

definition estimate_clean_air_pace ::
  "env \<Rightarrow> string \<Rightarrow> string \<Rightarrow> nat \<Rightarrow> pyfloat \<times> nat" where
  "estimate_clean_air_pace E drv tm k =
     (Fin (dict_get base_pace tm 96.0 + normal E 0 0.2 k), Suc k)"

text \<open>\<^verbatim>\<open>_get_clean_air_pace_data\<close>, lines 213-229.\<close>

definition mock_pace :: "(string \<times> real) list" where
  "mock_pace =
     [(''VER'', 93.191), (''HAM'', 94.021), (''LEC'', 93.419), (''NOR'', 93.429),
      (''ALO'', 94.784), (''PIA'', 93.232), (''RUS'', 93.833), (''SAI'', 94.497),
      (''STR'', 95.318), (''HUL'', 95.345), (''OCO'', 95.682), (''GAS'', 95.9),
      (''TSU'', 96.1), (''ALB'', 95.8), (''MAG'', 96.2), (''BOT'', 96.5),
      (''ZHO'', 96.8), (''RIC'', 95.7), (''COL'', 96.0)]"

definition get_clean_air_pace_data :: "env \<Rightarrow> int \<Rightarrow> string \<Rightarrow> (string \<rightharpoonup> pyfloat)" where
  "get_clean_air_pace_data E year event =
     (let pace_data = get_clean_air_race_pace E year event
      in if pace_data \<noteq> [] then map_of pace_data
         else map_of (map (\<lambda>(drv, pace). (drv, Fin pace)) mock_pace))"

text \<open>
  \<^verbatim>\<open>_get_qualifying_predictions\<close>, lines 231-249. \<^verbatim>\<open>a or b\<close> yields \<open>a\<close> when it is
  truthy and \<open>b\<close> otherwise; \<^verbatim>\<open>None\<close> and zero are falsy, every other float is truthy,
  NaN included. So the NaN of a session the driver did not run is taken as the time and
  stored.
\<close>

definition truthy_time :: "pyfloat option \<Rightarrow> bool" where
  "truthy_time t = (case t of None \<Rightarrow> False | Some v \<Rightarrow> v \<noteq> Fin 0)"

definition py_or :: "pyfloat option \<Rightarrow> pyfloat option \<Rightarrow> pyfloat option" where
  "py_or a b = (if truthy_time a then a else b)"

fun quali_loop ::
  "quali_row list \<Rightarrow> (string \<rightharpoonup> pyfloat) \<Rightarrow> (string \<rightharpoonup> pyfloat)" where
  "quali_loop [] quali_dict = quali_dict"
| "quali_loop (row # rest) quali_dict =
     (case py_or (py_or (row_q3 row) (row_q2 row)) (row_q1 row) of
        None \<Rightarrow> quali_loop rest quali_dict
      | Some time \<Rightarrow>
          if time \<noteq> Fin 0 then quali_loop rest (quali_dict(row_driver row \<mapsto> time))
          else quali_loop rest quali_dict)"

fun estimate_all ::
  "env \<Rightarrow> (string \<times> string) list \<Rightarrow> nat \<Rightarrow> (string \<times> pyfloat) list \<times> nat" where
  "estimate_all E [] k = ([], k)"
| "estimate_all E ((drv, tm) # rest) k =
     (let (t, k1) = estimate_qualifying_time E drv tm k;
          (ts, k2) = estimate_all E rest k1
      in ((drv, t) # ts, k2))"

definition get_qualifying_predictions ::
  "env \<Rightarrow> int \<Rightarrow> string \<Rightarrow> nat \<Rightarrow> (string \<rightharpoonup> pyfloat) \<times> nat" where
  "get_qualifying_predictions E year event k =
     (case get_qualifying_results E year event of
        Some (row # rows) \<Rightarrow> (quali_loop (row # rows) Map.empty, k)
      | Some [] \<Rightarrow> (let (ts, k1) = estimate_all E driver_to_team k in (map_of ts, k1))
      | None \<Rightarrow> (let (ts, k1) = estimate_all E driver_to_team k in (map_of ts, k1)))"

text \<open>
  \<^verbatim>\<open>_build_driver_features\<close>, lines 181-211. Both defaults of the two \<^verbatim>\<open>.get\<close> calls are
  evaluated before the lookup, so every call consumes two draws. Nothing in the body can
  raise, so the result is never \<^verbatim>\<open>None\<close>.
\<close>

definition build_driver_features ::
  "env \<Rightarrow> string \<Rightarrow> string \<Rightarrow> string \<Rightarrow> weather_data \<Rightarrow> (string \<rightharpoonup> pyfloat)
     \<Rightarrow> (string \<rightharpoonup> pyfloat) \<Rightarrow> nat \<Rightarrow> features option \<times> nat" where
  "build_driver_features E drv tm event weather pace qualifying_data k =
     (let (quali_est, k1) = estimate_qualifying_time E drv tm k;
          quali_time = dict_get qualifying_data drv quali_est;
          team_score = Fin (dict_get team_performance_scores tm 0.5);
          (pace_est, k2) = estimate_clean_air_pace E drv tm k1;
          pace_v = dict_get pace drv pace_est;
          position_change =
            Fin (dict_get (dict_get average_position_change event Map.empty) drv 0.0)
      in (Some \<lparr> col_qualifying_time = quali_time,
                 col_rain_probability = precipitation_prob weather,
                 col_temperature = temperature_c weather,
                 col_team_performance_score = team_score,
                 col_clean_air_pace = pace_v,
                 col_average_position_change = position_change \<rparr>, k2))"

section \<open>Prediction\<close>

text \<open>\<^verbatim>\<open>_create_mock_predictions\<close>, lines 280-292.\<close>

definition mock_time :: "features \<Rightarrow> pyfloat" where
  "mock_time row =
     (let base_time = fadd (col_qualifying_time row) (Fin 20);
          team_factor = col_team_performance_score row;
          weather_factor = fadd (Fin 1) (fmul (col_rain_probability row) (Fin 0.1))
      in fmul (fmul base_time (fsub (Fin 2) team_factor)) weather_factor)"

definition create_mock_predictions :: "features list \<Rightarrow> string list \<Rightarrow> pyfloat list" where
  "create_mock_predictions features_df drivers = map mock_time features_df"

text \<open>\<^verbatim>\<open>_calculate_z_score\<close>, lines 327-331.\<close>

definition calculate_z_score :: "pyfloat \<Rightarrow> pyfloat \<Rightarrow> pyfloat \<Rightarrow> pyfloat" where
  "calculate_z_score v mean std =
     (if std = Fin 0 then Fin 0.0 else fdiv (fsub v mean) std)"

text \<open>Sequencing of steps that may raise: the first exception ends the computation.\<close>

definition bind :: "exn + 'a \<Rightarrow> ('a \<Rightarrow> exn + 'b) \<Rightarrow> exn + 'b" where
  "bind r f = (case r of Inl e \<Rightarrow> Inl e | Inr v \<Rightarrow> f v)"

text \<open>
  Lines 302-316 of \<^verbatim>\<open>_apply_weight_adjustments\<close>: the five z-scores (default mean 0 and
  standard deviation 1) and their weighted sum, evaluated left to right.
\<close>

definition adjustment :: "prediction_weights \<Rightarrow> features \<Rightarrow> exn + pyfloat" where
  "adjustment weights row =
     (let z_track = calculate_z_score (col_average_position_change row) (Fin 0.0) (Fin 1.0);
          z_pace = calculate_z_score (col_clean_air_pace row) (Fin 0.0) (Fin 1.0);
          z_quali = calculate_z_score (col_qualifying_time row) (Fin 0.0) (Fin 1.0);
          z_team = calculate_z_score (col_team_performance_score row) (Fin 0.0) (Fin 1.0);
          z_weather = calculate_z_score (col_rain_probability row) (Fin 0.0) (Fin 1.0)
      in bind (py_mul (track_suitability weights) z_track) (\<lambda>a.
         bind (py_mul (clean_air_pace weights) z_pace) (\<lambda>b.
         bind (py_mul (qualifying_importance weights) z_quali) (\<lambda>c.
         bind (py_mul (team_form weights) z_team) (\<lambda>d.
         bind (py_mul (weather_impact weights) z_weather) (\<lambda>e.
           Inr (fadd (fadd (fadd (fadd (fmul a (Fin 0.1)) (fmul b (Fin 0.1)))
                              (fmul c (Fin 0.1))) (fmul d (Fin 0.1))) (fmul e (Fin 0.1)))))))))"

text \<open>
  The loop of \<^verbatim>\<open>_apply_weight_adjustments\<close>, lines 301-323, over
  \<^verbatim>\<open>enumerate(zip(predicted_times, drivers))\<close>; \<^verbatim>\<open>.iloc[i]\<close> beyond the last row raises
  \<^verbatim>\<open>IndexError\<close>. The position of the random stream is returned in either case.
\<close>

fun adjust_loop ::
  "env \<Rightarrow> prediction_weights \<Rightarrow> features list \<Rightarrow> nat \<Rightarrow> (pyfloat \<times> string) list
     \<Rightarrow> pyfloat list \<Rightarrow> nat \<Rightarrow> (exn + pyfloat list) \<times> nat" where
  "adjust_loop E weights features_df i [] adjusted_times k = (Inr adjusted_times, k)"
| "adjust_loop E weights features_df i ((time, drv) # rest) adjusted_times k =
     (if length features_df \<le> i then (Inl IndexError, k)
      else case adjustment weights (features_df ! i) of
             Inl e \<Rightarrow> (Inl e, k)
           | Inr a \<Rightarrow>
               (let adjusted1 = adjusted_times[i := fadd time a]
                in if truthy (chaos_mode weights)
                   then adjust_loop E weights features_df (Suc i) rest
                          (adjusted1[i := fadd (adjusted1 ! i) (Fin (normal E 0 2.0 k))])
                          (Suc k)
                   else adjust_loop E weights features_df (Suc i) rest adjusted1 k))"

definition apply_weight_adjustments ::
  "env \<Rightarrow> pyfloat list \<Rightarrow> features list \<Rightarrow> string list \<Rightarrow> prediction_weights \<Rightarrow> nat
     \<Rightarrow> (exn + pyfloat list) \<times> nat" where
  "apply_weight_adjustments E predicted_times features_df drivers weights k =
     adjust_loop E weights features_df 0 (zip predicted_times drivers) predicted_times k"

text \<open>\<^verbatim>\<open>_times_to_predictions\<close>, lines 333-362.\<close>

definition win_prob :: "nat \<Rightarrow> real" where
  "win_prob i = max 0.01 (0.95 - (real i * 0.05))"

definition top3_prob :: "nat \<Rightarrow> real" where
  "top3_prob i =
     (if i < 3 then 0.8 - (real i * 0.1) else max 0.05 (0.5 - (real (i - 3) * 0.05)))"

fun predictions_loop ::
  "string list \<Rightarrow> pyfloat list \<Rightarrow> nat \<Rightarrow> nat list \<Rightarrow> exn + driver_prediction list" where
  "predictions_loop drivers predicted_times i [] = Inr []"
| "predictions_loop drivers predicted_times i (idx # rest) =
     (if length drivers \<le> idx \<or> length predicted_times \<le> idx then Inl IndexError
      else bind (predictions_loop drivers predicted_times (Suc i) rest) (\<lambda>predictions.
             Inr (\<lparr> driver = drivers ! idx,
                    team = dict_get (map_of driver_to_team) (drivers ! idx) ''Unknown'',
                    predicted_time = predicted_times ! idx,
                    win_probability = win_prob i,
                    top3_probability = top3_prob i \<rparr> # predictions)))"

definition times_to_predictions ::
  "env \<Rightarrow> string list \<Rightarrow> pyfloat list \<Rightarrow> exn + driver_prediction list" where
  "times_to_predictions E drivers predicted_times =
     predictions_loop drivers predicted_times 0 (argsort E predicted_times)"

text \<open>
  \<^verbatim>\<open>sorted(xs, key=f)\<close>: Python's sort is stable, as is insertion sort. The service
  sorts one list only, the one \<^verbatim>\<open>np.argsort\<close> has just put in order with NaN last;
  Python finds no descent in such a list (no comparison with NaN is true) and returns it
  unchanged, as the insertion sort under the order of \<^typ>\<open>pyfloat\<close> does.
\<close>

definition py_sorted :: "('a \<Rightarrow> pyfloat) \<Rightarrow> 'a list \<Rightarrow> 'a list" where
  "py_sorted f xs = sort_key f xs"

text \<open>The loop of \<^verbatim>\<open>predict_race\<close> over \<^verbatim>\<open>driver_to_team.items()\<close>, lines 133-144.\<close>

fun features_loop ::
  "env \<Rightarrow> (string \<times> string) list \<Rightarrow> string \<Rightarrow> weather_data \<Rightarrow> (string \<rightharpoonup> pyfloat)
     \<Rightarrow> (string \<rightharpoonup> pyfloat) \<Rightarrow> nat \<Rightarrow> (features list \<times> string list) \<times> nat" where
  "features_loop E [] event weather pace qualifying_data k = (([], []), k)"
| "features_loop E ((drv, tm) # rest) event weather pace qualifying_data k =
     (let (feats, k1) = build_driver_features E drv tm event weather pace qualifying_data k;
          ((driver_features, drivers), k2) =
             features_loop E rest event weather pace qualifying_data k1
      in case feats of
           None \<Rightarrow> ((driver_features, drivers), k2)
         | Some row \<Rightarrow> ((row # driver_features, drv # drivers), k2))"

text \<open>
  Lines 153-158: a missing imputer is created and fitted, an existing one is applied. The
  new imputer is assigned to \<^verbatim>\<open>self.imputer\<close> before \<^verbatim>\<open>fit_transform\<close> runs, so it
  stays there, unfitted, when that call raises.
\<close>

definition impute ::
  "service \<Rightarrow> pyfloat list list \<Rightarrow> service \<times> (exn + pyfloat list list)" where
  "impute s X =
     (case imputer s of
        None \<Rightarrow>
          (case imputer_fit_transform X of
             Inl e \<Rightarrow> (s\<lparr> imputer := Some UnfittedImputer \<rparr>, Inl e)
           | Inr (imp, features_imputed) \<Rightarrow>
               (s\<lparr> imputer := Some imp \<rparr>, Inr features_imputed))
      | Some imp \<Rightarrow> (s, imputer_transform imp X))"

text \<open>Lines 160-165: the raw times, from the heuristic or from the model.\<close>

definition raw_times ::
  "service \<Rightarrow> features list \<Rightarrow> string list \<Rightarrow> pyfloat list list \<Rightarrow> exn + pyfloat list" where
  "raw_times s features_df drivers features_imputed =
     (case model s of
        None \<Rightarrow> Inr (create_mock_predictions features_df drivers)
      | Some m \<Rightarrow> regressor_predict m features_imputed)"

text \<open>
  \<^verbatim>\<open>predict_race\<close>, lines 101-179. The handler of lines 177-179 turns every exception of
  the body into the empty list, so the outcome is always a returned list.
\<close>

definition predict_race ::
  "env \<Rightarrow> service \<Rightarrow> int \<Rightarrow> string \<Rightarrow> int \<Rightarrow> prediction_weights \<Rightarrow> datetime option
     \<Rightarrow> service \<times> (exn + driver_prediction list)" where
  "predict_race E s year event round_num weights race_datetime =
     (let weather = race_weather E event race_datetime;
          pace = get_clean_air_pace_data E year event;
          (qualifying_data, k1) = get_qualifying_predictions E year event (rng_pos s);
          ((features_df, drivers), k2) =
             features_loop E driver_to_team event weather pace qualifying_data k1;
          s1 = s\<lparr> rng_pos := k2 \<rparr>
      in if features_df = [] then (s1, Inr [])
         else case impute s1 (map row_values features_df) of
                (s2, Inl e) \<Rightarrow> (s2, Inr [])
              | (s2, Inr features_imputed) \<Rightarrow>
                  (case raw_times s2 features_df drivers features_imputed of
                     Inl e \<Rightarrow> (s2, Inr [])
                   | Inr predicted_times \<Rightarrow>
                       (case apply_weight_adjustments E predicted_times features_df drivers
                               weights (rng_pos s2) of
                          (Inl e, k3) \<Rightarrow> (s2\<lparr> rng_pos := k3 \<rparr>, Inr [])
                        | (Inr adjusted_times, k3) \<Rightarrow>
                            (case times_to_predictions E drivers adjusted_times of
                               Inl e \<Rightarrow> (s2\<lparr> rng_pos := k3 \<rparr>, Inr [])
                             | Inr predictions \<Rightarrow>
                                 (s2\<lparr> rng_pos := k3 \<rparr>,
                                  Inr (py_sorted predicted_time predictions))))))"

section \<open>Training\<close>

datatype train_response =
    ErrorMessage string
  | ErrorOf exn
  | Success (mae: real) (feature_importance: "(string \<times> real) list")
      (training_samples: nat) (test_samples: nat)

text \<open>The loop of \<^verbatim>\<open>train_model\<close>, lines 375-381.\<close>

fun collect_loop ::
  "(string \<rightharpoonup> pyval) list \<Rightarrow> pyval list \<Rightarrow> pyval list \<Rightarrow> exn + (pyval list \<times> pyval list)" where
  "collect_loop [] X y = Inr (X, y)"
| "collect_loop (race_data # rest) X y =
     (let feats = dict_get race_data ''features'' (PList []);
          actual_time = dict_get race_data ''actual_time'' PNone
      in bind (py_len feats) (\<lambda>n.
           if n = length feature_names \<and> actual_time \<noteq> PNone
           then collect_loop rest (X @ [feats]) (y @ [actual_time])
           else collect_loop rest X y))"

text \<open>
  The body of \<^verbatim>\<open>train_model\<close>, lines 367-430, with the state at the point where an
  exception leaves it.
\<close>

definition train_model_body ::
  "env \<Rightarrow> service \<Rightarrow> (string \<rightharpoonup> pyval) list \<Rightarrow> service \<times> (exn + train_response)" where
  "train_model_body E s training_data =
     (if training_data = [] then (s, Inr (ErrorMessage ''No training data''))
      else
       (case collect_loop training_data [] [] of
          Inl e \<Rightarrow> (s, Inl e)
        | Inr (X, y) \<Rightarrow>
           (if length X < 10 then (s, Inr (ErrorMessage ''Insufficient training data''))
            else
             (case np_array E X of
                Inl e \<Rightarrow> (s, Inl e)
              | Inr Xa \<Rightarrow>
             (case np_array E y of
                Inl e \<Rightarrow> (s, Inl e)
              | Inr ya \<Rightarrow>
             (let s1 = s\<lparr> imputer := Some UnfittedImputer \<rparr> in
             (case fit_transform E Xa of
                Inl e \<Rightarrow> (s1, Inl e)
              | Inr (imp, X_imputed) \<Rightarrow>
             (let s2 = s1\<lparr> imputer := Some imp \<rparr> in
             (case train_test_split E X_imputed ya of
                Inl e \<Rightarrow> (s2, Inl e)
              | Inr (X_train, X_test, y_train, y_test) \<Rightarrow>
             (let s3 = s2\<lparr> model := Some UnfittedRegressor \<rparr> in
             (case fit E X_train y_train of
                Inl e \<Rightarrow> (s3, Inl e)
              | Inr m \<Rightarrow>
             (let s4 = s3\<lparr> model := Some m \<rparr> in
             (case regressor_predict m X_test of
                Inl e \<Rightarrow> (s4, Inl e)
              | Inr y_pred \<Rightarrow>
             (case mean_absolute_error E y_test y_pred of
                Inl e \<Rightarrow> (s4, Inl e)
              | Inr mae_v \<Rightarrow>
             (let s5 = save_model E s4 in
             (case feature_importances m of
                Inl e \<Rightarrow> (s5, Inl e)
              | Inr imps \<Rightarrow>
                 (s5, Inr (Success mae_v (zip feature_names imps) (length X)
                            (length X_test)))))))))))))))))))"

text \<open>
  \<^verbatim>\<open>train_model\<close>, lines 364-434: the handler of lines 432-434 returns
  \<^verbatim>\<open>{"error": str(e)}\<close> for every exception of the body.
\<close>

definition train_model ::
  "env \<Rightarrow> service \<Rightarrow> (string \<rightharpoonup> pyval) list \<Rightarrow> service \<times> (exn + train_response)" where
  "train_model E s training_data =
     (case train_model_body E s training_data of
        (s', Inl e) \<Rightarrow> (s', Inr (ErrorOf e))
      | (s', Inr r) \<Rightarrow> (s', Inr r))"

section \<open>Predicates and sample inputs used in the statements\<close>

text \<open>The condition of line 379 under which a training record is kept.\<close>

definition valid_example :: "(string \<rightharpoonup> pyval) \<Rightarrow> bool" where
  "valid_example race_data =
     (py_len (dict_get race_data ''features'' (PList [])) = Inr (length feature_names)
      \<and> dict_get race_data ''actual_time'' PNone \<noteq> PNone)"

text \<open>
  What numpy documents of \<^verbatim>\<open>np.argsort(a)\<close>: the result lists every index of \<open>a\<close> once,
  in an order that sorts \<open>a\<close>. The default kind (quicksort) promises nothing about the
  order of the indices of equal elements.
\<close>

definition argsort_spec :: "(pyfloat list \<Rightarrow> nat list) \<Rightarrow> pyfloat list \<Rightarrow> bool" where
  "argsort_spec f ts =
     (distinct (f ts) \<and> set (f ts) = set [0..<length ts]
      \<and> sorted (map (\<lambda>i. ts ! i) (f ts)))"

text \<open>The five feature cells that the weight overlay reads are finite numbers.\<close>

definition overlay_cells_finite :: "features \<Rightarrow> bool" where
  "overlay_cells_finite row =
     (is_finite (col_average_position_change row) \<and> is_finite (col_clean_air_pace row)
      \<and> is_finite (col_qualifying_time row) \<and> is_finite (col_team_performance_score row)
      \<and> is_finite (col_rain_probability row))"

text \<open>Two argsorts that meet that description and differ on ties.\<close>

definition argsort_stable :: "pyfloat list \<Rightarrow> nat list" where
  "argsort_stable ts = sort_key (\<lambda>i. ts ! i) [0..<length ts]"

definition argsort_reversing :: "pyfloat list \<Rightarrow> nat list" where
  "argsort_reversing ts = sort_key (\<lambda>i. ts ! i) (rev [0..<length ts])"

text \<open>
  A sample environment: no provider data, no noise. Its training steps follow the
  library on the sample data: a feature value that is not a list of six finite numbers
  is rejected with \<^verbatim>\<open>ValueError\<close>, and a regressor fitted to a constant target has
  single-node trees only, hence all importances zero; otherwise the importances are
  normalised to sum 1.
\<close>

definition sample_regressor :: regressor where
  "sample_regressor = FittedRegressor 6 (\<lambda>row. 5400) [0.5, 0.1, 0.1, 0.1, 0.1, 0.1]"

definition stump_regressor :: regressor where
  "stump_regressor = FittedRegressor 6 (\<lambda>row. 5400) [0, 0, 0, 0, 0, 0]"

fun numeric_cell :: "pyval \<Rightarrow> bool" where
  "numeric_cell (PNum x) = is_finite x"
| "numeric_cell v = False"

fun numeric_row :: "pyval \<Rightarrow> bool" where
  "numeric_row (PList vs) = (length vs = 6 \<and> list_all numeric_cell vs)"
| "numeric_row v = False"

fun pynum :: "pyval \<Rightarrow> pyfloat" where
  "pynum (PNum x) = x"
| "pynum v = NaN"

fun pyrow :: "pyval \<Rightarrow> pyfloat list" where
  "pyrow (PList vs) = map pynum vs"
| "pyrow v = []"

definition sample_fit_transform ::
  "pyval list \<Rightarrow> exn + simple_imputer \<times> pyfloat list list" where
  "sample_fit_transform X =
     (if list_all numeric_row X
      then Inr (FittedImputer (map column_statistic (transpose (map pyrow X))), map pyrow X)
      else Inl ValueError)"

definition sample_fit :: "pyfloat list list \<Rightarrow> pyval list \<Rightarrow> exn + regressor" where
  "sample_fit X y =
     (if list_all (\<lambda>v. v = hd y) y then Inr stump_regressor else Inr sample_regressor)"

definition sample_env :: env where
  "sample_env =
     \<lparr> get_weather_forecast = (\<lambda>event dt. None),
       get_clean_air_race_pace = (\<lambda>year event. []),
       get_qualifying_results = (\<lambda>year event. None),
       now = 0,
       normal = (\<lambda>mu sigma k. mu),
       argsort = argsort_stable,
       np_array = Inr,
       fit_transform = sample_fit_transform,
       train_test_split = (\<lambda>X y. Inr (take 7 X, drop 7 X, take 7 y, drop 7 y)),
       fit = sample_fit,
       mean_absolute_error = (\<lambda>y_true y_pred. Inr 0),
       disk_writable = True \<rparr>"

text \<open>Training records: six numeric features and a target, or a six-letter string.\<close>

definition sample_features :: pyval where
  "sample_features =
     PList [PNum (Fin 71), PNum (Fin 0.1), PNum (Fin 20), PNum (Fin 0.5), PNum (Fin 94),
            PNum (Fin 0)]"

definition training_record :: "real \<Rightarrow> (string \<rightharpoonup> pyval)" where
  "training_record t = [''features'' \<mapsto> sample_features, ''actual_time'' \<mapsto> PNum (Fin t)]"

definition sample_example :: "string \<rightharpoonup> pyval" where
  "sample_example = training_record 5400"

definition text_example :: "string \<rightharpoonup> pyval" where
  "text_example = [''features'' \<mapsto> PStr ''abcdef'', ''actual_time'' \<mapsto> PNum (Fin 5400)]"

definition zero_weights :: prediction_weights where
  "zero_weights =
     \<lparr> track_suitability = PNum (Fin 0), clean_air_pace = PNum (Fin 0),
       qualifying_importance = PNum (Fin 0), team_form = PNum (Fin 0),
       weather_impact = PNum (Fin 0), chaos_mode = PBool False \<rparr>"

definition sample_row :: features where
  "sample_row =
     \<lparr> col_qualifying_time = Fin 70.5, col_rain_probability = Fin 0.1,
       col_temperature = Fin 20, col_team_performance_score = Fin 0.5,
       col_clean_air_pace = Fin 93.5, col_average_position_change = Fin (-1) \<rparr>"

text \<open>The row of a driver whose qualifying time is missing.\<close>

definition nan_row :: features where
  "nan_row = sample_row\<lparr> col_qualifying_time := NaN \<rparr>"

definition stale_artifact :: model_data where
  "stale_artifact =
     \<lparr> md_model = Some sample_regressor, md_imputer = Some (FittedImputer [Fin 0]),
       md_feature_names = [''lap_time''], md_trained_at = 0 \<rparr>"

section \<open>Weights construction\<close>

lemma dict_get_upd_other: "k \<noteq> k' \<Longrightarrow> dict_get (m(k \<mapsto> v)) k' d = dict_get m k' d"
  by (simp add: dict_get_def)

lemma dict_get_case: "dict_get m k d = (case m k of None \<Rightarrow> d | Some v \<Rightarrow> v)"
  by (simp add: dict_get_def)

lemma PredictionWeights_ignores:
  assumes "k \<noteq> ''self''"
    "k \<noteq> ''track_suitability''" "k \<noteq> ''clean_air_pace''" "k \<noteq> ''qualifying_importance''"
    "k \<noteq> ''team_form''" "k \<noteq> ''weather_impact''" "k \<noteq> ''chaos_mode''"
  shows "PredictionWeights (kw(k \<mapsto> v)) = PredictionWeights kw"
proof -
  have s: "(kw(k \<mapsto> v)) ''self'' = kw ''self''" using assms(1) by simp
  show ?thesis
    unfolding PredictionWeights_def s
    by (simp only: dict_get_upd_other[OF assms(2)] dict_get_upd_other[OF assms(3)]
      dict_get_upd_other[OF assms(4)] dict_get_upd_other[OF assms(5)]
      dict_get_upd_other[OF assms(6)] dict_get_upd_other[OF assms(7)])
qed

lemma PredictionWeights_fields:
  assumes "kw ''self'' = None"
  shows "PredictionWeights kw = Inr
     \<lparr> track_suitability
         = (case kw ''track_suitability'' of None \<Rightarrow> PNum (Fin 0.85) | Some v \<Rightarrow> v),
       clean_air_pace
         = (case kw ''clean_air_pace'' of None \<Rightarrow> PNum (Fin 0.90) | Some v \<Rightarrow> v),
       qualifying_importance
         = (case kw ''qualifying_importance'' of None \<Rightarrow> PNum (Fin 0.85) | Some v \<Rightarrow> v),
       team_form = (case kw ''team_form'' of None \<Rightarrow> PNum (Fin 0.68) | Some v \<Rightarrow> v),
       weather_impact
         = (case kw ''weather_impact'' of None \<Rightarrow> PNum (Fin 0.45) | Some v \<Rightarrow> v),
       chaos_mode = (case kw ''chaos_mode'' of None \<Rightarrow> PBool False | Some v \<Rightarrow> v) \<rparr>"
  unfolding PredictionWeights_def dict_get_case using assms by simp

text \<open>
  Claim C10, as stated, fails: the unknown key \<^verbatim>\<open>self\<close> is not ignored. A mapping that
  holds it makes the constructor raise \<^verbatim>\<open>TypeError\<close>, while the empty mapping gives
  the defaults.
\<close>

theorem weights_init_self_counterexample:
  "PredictionWeights [''self'' \<mapsto> PNum (Fin 1)] = Inl TypeError
   \<and> PredictionWeights Map.empty
       = Inr \<lparr> track_suitability = PNum (Fin 0.85), clean_air_pace = PNum (Fin 0.90),
               qualifying_importance = PNum (Fin 0.85), team_form = PNum (Fin 0.68),
               weather_impact = PNum (Fin 0.45), chaos_mode = PBool False \<rparr>"
  by (simp add: PredictionWeights_def dict_get_def)

text \<open>
  Claim C10, amended. A keyword mapping with the key \<^verbatim>\<open>self\<close> raises
  \<^verbatim>\<open>TypeError\<close>. Every other mapping builds the weights and validates nothing: each of
  the six fields is the mapping's value for its key, whatever that value is, and the fixed
  default (0.85, 0.90, 0.85, 0.68, 0.45, false) when the key is missing; a further key
  that is neither \<^verbatim>\<open>self\<close> nor one of the six changes nothing.
\<close>

theorem weights_init_outcomes:
  "(kw ''self'' \<noteq> None \<longrightarrow> PredictionWeights kw = Inl TypeError)
   \<and> (kw ''self'' = None \<longrightarrow>
        PredictionWeights kw = Inr
          \<lparr> track_suitability
              = (case kw ''track_suitability'' of None \<Rightarrow> PNum (Fin 0.85) | Some v \<Rightarrow> v),
            clean_air_pace
              = (case kw ''clean_air_pace'' of None \<Rightarrow> PNum (Fin 0.90) | Some v \<Rightarrow> v),
            qualifying_importance
              = (case kw ''qualifying_importance'' of
                   None \<Rightarrow> PNum (Fin 0.85) | Some v \<Rightarrow> v),
            team_form = (case kw ''team_form'' of None \<Rightarrow> PNum (Fin 0.68) | Some v \<Rightarrow> v),
            weather_impact
              = (case kw ''weather_impact'' of None \<Rightarrow> PNum (Fin 0.45) | Some v \<Rightarrow> v),
            chaos_mode
              = (case kw ''chaos_mode'' of None \<Rightarrow> PBool False | Some v \<Rightarrow> v) \<rparr>)
   \<and> (k \<noteq> ''self'' \<and> k \<noteq> ''track_suitability'' \<and> k \<noteq> ''clean_air_pace''
        \<and> k \<noteq> ''qualifying_importance'' \<and> k \<noteq> ''team_form''
        \<and> k \<noteq> ''weather_impact'' \<and> k \<noteq> ''chaos_mode''
        \<longrightarrow> PredictionWeights (kw(k \<mapsto> u)) = PredictionWeights kw)"
proof (intro conjI impI)
  assume "kw ''self'' \<noteq> None"
  then show "PredictionWeights kw = Inl TypeError" by (simp add: PredictionWeights_def)
next
  assume "kw ''self'' = None"
  then show "PredictionWeights kw = Inr
          \<lparr> track_suitability
              = (case kw ''track_suitability'' of None \<Rightarrow> PNum (Fin 0.85) | Some v \<Rightarrow> v),
            clean_air_pace
              = (case kw ''clean_air_pace'' of None \<Rightarrow> PNum (Fin 0.90) | Some v \<Rightarrow> v),
            qualifying_importance
              = (case kw ''qualifying_importance'' of
                   None \<Rightarrow> PNum (Fin 0.85) | Some v \<Rightarrow> v),
            team_form = (case kw ''team_form'' of None \<Rightarrow> PNum (Fin 0.68) | Some v \<Rightarrow> v),
            weather_impact
              = (case kw ''weather_impact'' of None \<Rightarrow> PNum (Fin 0.45) | Some v \<Rightarrow> v),
            chaos_mode
              = (case kw ''chaos_mode'' of None \<Rightarrow> PBool False | Some v \<Rightarrow> v) \<rparr>"
    by (rule PredictionWeights_fields)
next
  assume "k \<noteq> ''self'' \<and> k \<noteq> ''track_suitability'' \<and> k \<noteq> ''clean_air_pace''
        \<and> k \<noteq> ''qualifying_importance'' \<and> k \<noteq> ''team_form''
        \<and> k \<noteq> ''weather_impact'' \<and> k \<noteq> ''chaos_mode''"
  then show "PredictionWeights (kw(k \<mapsto> u)) = PredictionWeights kw"
    using PredictionWeights_ignores [of k kw u] by blast
qed

theorem weights_init_outcomes_witness:
  "PredictionWeights [''self'' \<mapsto> PBool True] = Inl TypeError
   \<and> PredictionWeights ([''team_form'' \<mapsto> PNum (Fin 7), ''bogus'' \<mapsto> PStr ''x''])
       = PredictionWeights [''team_form'' \<mapsto> PNum (Fin 7)]
   \<and> PredictionWeights [''team_form'' \<mapsto> PNum (Fin 7)]
       = Inr \<lparr> track_suitability = PNum (Fin 0.85), clean_air_pace = PNum (Fin 0.90),
               qualifying_importance = PNum (Fin 0.85), team_form = PNum (Fin 7),
               weather_impact = PNum (Fin 0.45), chaos_mode = PBool False \<rparr>"
  using weights_init_outcomes [of "[''self'' \<mapsto> PBool True]" "''bogus''" "PStr ''x''"]
    weights_init_outcomes [of "[''team_form'' \<mapsto> PNum (Fin 7)]" "''bogus''" "PStr ''x''"]
  by simp

section \<open>Defaults, model file and feature importance\<close>

lemma build_driver_features_row:
  "build_driver_features E drv tm event w pace q k =
     (Some \<lparr> col_qualifying_time = dict_get q drv (fst (estimate_qualifying_time E drv tm k)),
             col_rain_probability = precipitation_prob w,
             col_temperature = temperature_c w,
             col_team_performance_score = Fin (dict_get team_performance_scores tm 0.5),
             col_clean_air_pace = dict_get pace drv (fst (estimate_clean_air_pace E drv tm (Suc k))),
             col_average_position_change =
               Fin (dict_get (dict_get average_position_change event Map.empty) drv 0.0) \<rparr>,
      Suc (Suc k))"
  by (simp add: build_driver_features_def estimate_qualifying_time_def
      estimate_clean_air_pace_def Let_def)

text \<open>
  Claim C9. Missing inputs are replaced by the documented defaults and feature
  construction does not fail: without a race time, or when the forecast is absent, the
  weather is the fixed default object (20 degrees, wind 10 km/h, rain probability 0.1,
  clear); the feature row is always produced, copies rain probability and temperature
  from the weather, gives a team without a performance score 0.5, and gives a driver
  absent from the venue's position-change table (or a venue without a table) 0.0.
\<close>

theorem missing_inputs_get_defaults:
  "race_weather E event None = default_weather E
   \<and> (get_weather_forecast E event dt = None
        \<longrightarrow> race_weather E event (Some dt) = default_weather E)
   \<and> temperature_c (default_weather E) = Fin 20
   \<and> wind_kph (default_weather E) = Fin 10
   \<and> precipitation_prob (default_weather E) = Fin 0.1
   \<and> weather_condition (default_weather E) = ''clear''
   \<and> (\<exists>row. fst (build_driver_features E drv tm event w pace q k) = Some row
        \<and> col_rain_probability row = precipitation_prob w
        \<and> col_temperature row = temperature_c w
        \<and> (team_performance_scores tm = None
             \<longrightarrow> col_team_performance_score row = Fin 0.5)
        \<and> ((case average_position_change event of
               None \<Rightarrow> True | Some tbl \<Rightarrow> tbl drv = None)
             \<longrightarrow> col_average_position_change row = Fin 0.0))"
proof -
  have w1: "race_weather E event None = default_weather E"
    by (simp add: race_weather_def)
  have w2: "get_weather_forecast E event dt = None
        \<longrightarrow> race_weather E event (Some dt) = default_weather E"
    by (simp add: race_weather_def)
  have w3: "temperature_c (default_weather E) = Fin 20 \<and> wind_kph (default_weather E) = Fin 10
     \<and> precipitation_prob (default_weather E) = Fin 0.1
     \<and> weather_condition (default_weather E) = ''clear''"
    by (simp add: default_weather_def)
  have f: "(case average_position_change event of
               None \<Rightarrow> True | Some tbl \<Rightarrow> tbl drv = None)
        \<longrightarrow> dict_get (dict_get average_position_change event Map.empty) drv 0.0 = (0::real)"
    by (simp add: dict_get_def split: option.splits)
  have t: "team_performance_scores tm = None \<longrightarrow> dict_get team_performance_scores tm 0.5 = (0.5::real)"
    by (simp add: dict_get_def)
  show ?thesis
    using w1 w2 w3 f t by (simp add: build_driver_features_row)
qed

theorem missing_inputs_get_defaults_witness:
  "get_weather_forecast sample_env ''Monza'' 5 = None
   \<and> race_weather sample_env ''Monza'' (Some 5) = default_weather sample_env
   \<and> team_performance_scores ''Cadillac'' = None
   \<and> (\<exists>row. fst (build_driver_features sample_env ''PER'' ''Cadillac'' ''Monza''
                  (default_weather sample_env) Map.empty Map.empty 0) = Some row
        \<and> col_rain_probability row = Fin 0.1 \<and> col_temperature row = Fin 20
        \<and> col_team_performance_score row = Fin 0.5
        \<and> col_average_position_change row = Fin 0)"
proof -
  have a: "get_weather_forecast sample_env ''Monza'' 5 = None"
    by (simp add: sample_env_def)
  have b: "team_performance_scores ''Cadillac'' = None"
    by (simp add: team_performance_scores_def)
  have c: "(case average_position_change ''Monza'' of
               None \<Rightarrow> True | Some tbl \<Rightarrow> tbl ''PER'' = None)"
    by (simp add: average_position_change_def)
  have d: "precipitation_prob (default_weather sample_env) = Fin 0.1"
      "temperature_c (default_weather sample_env) = Fin 20"
    by (simp_all add: default_weather_def)
  show ?thesis
    using missing_inputs_get_defaults [of sample_env "''Monza''" 5 "''PER''" "''Cadillac''"
        "default_weather sample_env" Map.empty Map.empty 0] a b c d
    by auto
qed

text \<open>
  Claim C8. A service constructed without a loadable model file holds the default,
  unfitted regressor, not \<^verbatim>\<open>None\<close>; asking it for the feature importance raises
  \<^verbatim>\<open>NotFittedError\<close> instead of returning an empty or all-zero map.
\<close>

theorem feature_importance_of_default_model:
  "get_feature_importance (init NoFile k) = Inl NotFittedError
   \<and> get_feature_importance (init Unloadable k) = Inl NotFittedError"
  by (simp add: get_feature_importance_def init_def load_model_def create_default_model_def
      feature_importances_def)

lemma feature_importance_no_model:
  "model s = None \<Longrightarrow> get_feature_importance s = Inr []"
  by (simp add: get_feature_importance_def)

text \<open>
  Claim C7, as stated, fails: a model file whose stored feature order differs from the
  engine's is installed by \<^verbatim>\<open>load_model\<close>.
\<close>

theorem load_ignores_feature_order_counterexample:
  "md_feature_names stale_artifact \<noteq> feature_names
   \<and> model (init (Pickled stale_artifact) 0) = Some sample_regressor
   \<and> imputer (init (Pickled stale_artifact) 0) = Some (FittedImputer [Fin 0])"
  by (simp add: init_def load_model_def stale_artifact_def feature_names_def)

text \<open>
  Claim C7, amended. The saved artifact is one bundle of the model, the imputer, the
  engine's feature field order and the time of saving; loading a bundle installs its model
  and imputer and never looks at the stored feature order.
\<close>

theorem artifact_bundle_and_load:
  "(disk_writable E \<longrightarrow>
      disk (save_model E s)
        = Pickled \<lparr> md_model = model s, md_imputer = imputer s,
                    md_feature_names = feature_names, md_trained_at = now E \<rparr>)
   \<and> load_model (s\<lparr> disk := Pickled md \<rparr>)
        = s\<lparr> disk := Pickled md, model := md_model md, imputer := md_imputer md \<rparr>"
  by (simp add: save_model_def load_model_def)

theorem artifact_bundle_and_load_witness:
  "disk_writable sample_env
   \<and> disk (save_model sample_env (init NoFile 0))
        = Pickled \<lparr> md_model = Some UnfittedRegressor, md_imputer = Some UnfittedImputer,
                    md_feature_names = feature_names, md_trained_at = 0 \<rparr>"
proof -
  have a: "disk_writable sample_env" by (simp add: sample_env_def)
  have b: "model (init NoFile 0) = Some UnfittedRegressor"
     "imputer (init NoFile 0) = Some UnfittedImputer" "now sample_env = 0"
    by (simp_all add: init_def load_model_def create_default_model_def sample_env_def)
  show ?thesis
    using artifact_bundle_and_load [of sample_env "init NoFile 0"] a b by simp
qed

section \<open>Training\<close>

lemma collect_loop_length:
  "collect_loop d X y = Inr (X', y')
     \<Longrightarrow> length X' = length X + length (filter valid_example d)"
proof (induction d arbitrary: X y)
  case Nil
  then show ?case by simp
next
  case (Cons r rest)
  show ?case
  proof (cases "py_len (dict_get r ''features'' (PList []))")
    case (Inl e)
    with Cons.prems show ?thesis by (simp add: bind_def Let_def)
  next
    case (Inr n)
    show ?thesis
    proof (cases "n = length feature_names \<and> dict_get r ''actual_time'' PNone \<noteq> PNone")
      case True
      with Inr Cons.prems
      have "collect_loop rest (X @ [dict_get r ''features'' (PList [])])
              (y @ [dict_get r ''actual_time'' PNone]) = Inr (X', y')"
        by (simp add: bind_def Let_def)
      from Cons.IH [OF this] True Inr show ?thesis
        by (simp add: valid_example_def)
    next
      case False
      with Inr Cons.prems have "collect_loop rest X y = Inr (X', y')"
        by (auto simp: bind_def Let_def)
      from Cons.IH [OF this] False Inr show ?thesis
        by (auto simp: valid_example_def)
    qed
  qed
qed

lemma collect_loop_error:
  "collect_loop d X y = Inl e \<Longrightarrow> e = TypeError"
proof (induction d arbitrary: X y)
  case Nil
  then show ?case by simp
next
  case (Cons r rest)
  show ?case
  proof (cases "dict_get r ''features'' (PList [])")
    case PNone with Cons.prems show ?thesis by (simp add: bind_def Let_def)
  next
    case (PBool b) with Cons.prems show ?thesis by (simp add: bind_def Let_def)
  next
    case (PNum x) with Cons.prems show ?thesis by (simp add: bind_def Let_def)
  next
    case (PStr x) with Cons show ?thesis by (auto simp: bind_def Let_def split: if_splits)
  next
    case (PList x) with Cons show ?thesis by (auto simp: bind_def Let_def split: if_splits)
  next
    case (PDict x) with Cons show ?thesis by (auto simp: bind_def Let_def split: if_splits)
  qed
qed

lemma train_model_body_few:
  assumes "length (filter valid_example d) < 10"
  shows "train_model_body E s d = (s, Inr (ErrorMessage ''No training data''))
       \<or> train_model_body E s d = (s, Inr (ErrorMessage ''Insufficient training data''))
       \<or> train_model_body E s d = (s, Inl TypeError)"
proof (cases "d = []")
  case True
  then show ?thesis by (simp add: train_model_body_def)
next
  case False
  show ?thesis
  proof (cases "collect_loop d [] []")
    case (Inl e)
    then have "e = TypeError" by (rule collect_loop_error)
    with Inl False show ?thesis by (simp add: train_model_body_def)
  next
    case (Inr p)
    obtain X y where p: "p = (X, y)" by (cases p)
    from Inr p have "length X = length (filter valid_example d)"
      using collect_loop_length [of d "[]" "[]" X y] by simp
    with assms have "length X < 10" by simp
    with Inr p False show ?thesis by (simp add: train_model_body_def)
  qed
qed

text \<open>
  Claim C6. When fewer than ten training records are valid, \<^verbatim>\<open>train_model\<close> leaves
  the whole state as it was: the model, the imputer and the model file on disk.
\<close>

theorem train_too_few_keeps_state:
  assumes "length (filter valid_example training_data) < 10"
  shows "fst (train_model E s training_data) = s
       \<and> model (fst (train_model E s training_data)) = model s
       \<and> imputer (fst (train_model E s training_data)) = imputer s
       \<and> disk (fst (train_model E s training_data)) = disk s"
  using train_model_body_few [OF assms, of E s]
  by (auto simp: train_model_def)

lemma valid_training_record: "valid_example (training_record t)"
  by (simp add: valid_example_def training_record_def sample_features_def dict_get_def
      feature_names_def)

lemma valid_text_example: "valid_example text_example"
  by (simp add: valid_example_def text_example_def dict_get_def feature_names_def)

lemma nine_valid: "length (filter valid_example (replicate 9 sample_example)) = 9"
  by (simp add: sample_example_def valid_training_record)

theorem train_too_few_keeps_state_witness:
  "length (filter valid_example (replicate 9 sample_example)) < 10
   \<and> fst (train_model sample_env (init (Pickled stale_artifact) 0) (replicate 9 sample_example))
       = init (Pickled stale_artifact) 0"
  using train_too_few_keeps_state [of "replicate 9 sample_example" sample_env
      "init (Pickled stale_artifact) 0"] nine_valid
  by simp

lemma collect_loop_records:
  "collect_loop (map training_record ts) X y
     = Inr (X @ replicate (length ts) sample_features, y @ map (\<lambda>t. PNum (Fin t)) ts)"
proof (induction ts arbitrary: X y)
  case Nil
  then show ?case by simp
next
  case (Cons t ts)
  have f: "dict_get (training_record t) ''features'' (PList []) = sample_features"
    and a: "dict_get (training_record t) ''actual_time'' PNone = PNum (Fin t)"
    by (simp_all add: training_record_def dict_get_def)
  have l: "py_len sample_features = Inr (length feature_names)"
    by (simp add: sample_features_def feature_names_def)
  show ?case
    by (simp add: f a l bind_def Cons.IH Let_def replicate_app_Cons_same)
qed

lemma collect_loop_text:
  "collect_loop (replicate n text_example) X y
     = Inr (X @ replicate n (PStr ''abcdef''), y @ replicate n (PNum (Fin 5400)))"
proof (induction n arbitrary: X y)
  case 0
  then show ?case by simp
next
  case (Suc n)
  have f: "dict_get text_example ''features'' (PList []) = PStr ''abcdef''"
    and a: "dict_get text_example ''actual_time'' PNone = PNum (Fin 5400)"
    by (simp_all add: text_example_def dict_get_def)
  show ?case
    by (simp add: f a bind_def feature_names_def Suc.IH Let_def replicate_app_Cons_same)
qed

lemma replicate_records: "replicate n sample_example = map training_record (replicate n 5400)"
  by (simp add: sample_example_def)

lemma train_model_returns: "\<exists>r. snd (train_model E s d) = Inr r"
  by (cases "train_model_body E s d") (auto simp: train_model_def split: sum.splits)

lemma train_model_body_success:
  assumes "collect_loop d [] [] = Inr (X, y)" "10 \<le> length X"
    "np_array E X = Inr Xa" "np_array E y = Inr ya"
    "fit_transform E Xa = Inr (imp, X_imputed)"
    "train_test_split E X_imputed ya = Inr (X_train, X_test, y_train, y_test)"
    "fit E X_train y_train = Inr (FittedRegressor n f imps)"
    "regressor_predict (FittedRegressor n f imps) X_test = Inr y_pred"
    "mean_absolute_error E y_test y_pred = Inr v"
  shows "snd (train_model_body E s d)
           = Inr (Success v (zip feature_names imps) (length X) (length X_test))"
proof -
  from assms(1,2) have "d \<noteq> []" by auto
  with assms show ?thesis
    by (simp add: train_model_body_def feature_importances_def Let_def)
qed

lemma train_model_body_library_error:
  assumes "collect_loop d [] [] = Inr (X, y)" "10 \<le> length X"
    "np_array E X = Inr Xa" "np_array E y = Inr ya"
    "fit_transform E Xa = Inl e"
  shows "snd (train_model_body E s d) = Inl e"
proof -
  from assms(1,2) have "d \<noteq> []" by auto
  with assms show ?thesis
    by (simp add: train_model_body_def Let_def)
qed

lemma train_model_snd:
  "snd (train_model E s d)
     = (case snd (train_model_body E s d) of Inl e \<Rightarrow> Inr (ErrorOf e) | Inr r \<Rightarrow> Inr r)"
  by (cases "train_model_body E s d") (simp add: train_model_def split: sum.splits)

lemma zip_names_six:
  assumes "length imps = 6"
  shows "map fst (zip feature_names imps) = feature_names"
    "map snd (zip feature_names imps) = imps"
    "zip feature_names imps \<noteq> []"
proof -
  have l: "length feature_names = 6" by (simp add: feature_names_def)
  show "map fst (zip feature_names imps) = feature_names"
    using l assms by (simp add: map_fst_zip)
  show "map snd (zip feature_names imps) = imps"
    using l assms by (simp add: map_snd_zip)
  have "length (zip feature_names imps) = 6" using l assms by simp
  then show "zip feature_names imps \<noteq> []" by auto
qed


text \<open>
  Claim C2, as stated, fails in three places. With nine valid records \<^verbatim>\<open>train_model\<close>
  raises nothing and returns the error dict \<^verbatim>\<open>{"error": "Insufficient training data"}\<close>.
  Ten records that pass the check of line 379 need not train: a six-letter string has
  length six, the imputer rejects it, and the result is an error dict. Ten numeric
  records with one and the same target train successfully, but the regressor's trees never
  split and the importance map sums to 0.
\<close>

theorem train_claim_counterexample:
  "length (filter valid_example (replicate 9 sample_example)) = 9
   \<and> snd (train_model sample_env (init NoFile 0) (replicate 9 sample_example))
       = Inr (ErrorMessage ''Insufficient training data'')
   \<and> length (filter valid_example (replicate 10 text_example)) = 10
   \<and> snd (train_model sample_env (init NoFile 0) (replicate 10 text_example))
       = Inr (ErrorOf ValueError)
   \<and> length (filter valid_example (replicate 10 sample_example)) = 10
   \<and> snd (train_model sample_env (init NoFile 0) (replicate 10 sample_example))
       = Inr (Success 0 (zip feature_names [0, 0, 0, 0, 0, 0]) 10 3)
   \<and> sum_list (map snd (zip feature_names [0, 0, 0, 0, 0, 0 :: real])) = 0"
proof -
  let ?s = "init NoFile 0"
  let ?r = "pyrow sample_features"
  have c9: "collect_loop (replicate 9 sample_example) [] []
      = Inr (replicate 9 sample_features, replicate 9 (PNum (Fin 5400)))"
    using collect_loop_records [of "replicate 9 5400" "[]" "[]"]
    by (simp add: replicate_records)
  have a: "snd (train_model sample_env ?s (replicate 9 sample_example))
       = Inr (ErrorMessage ''Insufficient training data'')"
    by (simp add: train_model_def train_model_body_def c9)
  have t10: "length (filter valid_example (replicate 10 text_example)) = 10"
    by (simp add: valid_text_example)
  have s10: "length (filter valid_example (replicate 10 sample_example)) = 10"
    by (simp add: sample_example_def valid_training_record)
  have ct: "collect_loop (replicate 10 text_example) [] []
      = Inr (replicate 10 (PStr ''abcdef''), replicate 10 (PNum (Fin 5400)))"
    using collect_loop_text [of 10 "[]" "[]"] by simp
  have ft: "fit_transform sample_env (replicate 10 (PStr ''abcdef'')) = Inl ValueError"
    by (simp add: sample_env_def sample_fit_transform_def list_all_iff)
  have "snd (train_model_body sample_env ?s (replicate 10 text_example)) = Inl ValueError"
    by (rule train_model_body_library_error [OF ct _ _ _ ft])
      (simp_all add: sample_env_def)
  then have b: "snd (train_model sample_env ?s (replicate 10 text_example))
       = Inr (ErrorOf ValueError)"
    by (simp add: train_model_snd)
  have cs: "collect_loop (replicate 10 sample_example) [] []
      = Inr (replicate 10 sample_features, replicate 10 (PNum (Fin 5400)))"
    using collect_loop_records [of "replicate 10 5400" "[]" "[]"]
    by (simp add: replicate_records)
  have fs: "fit_transform sample_env (replicate 10 sample_features)
      = Inr (FittedImputer (map column_statistic (transpose (replicate 10 ?r))),
             replicate 10 ?r)"
    by (simp add: sample_env_def sample_fit_transform_def list_all_iff sample_features_def)
  have sp: "train_test_split sample_env (replicate 10 ?r) (replicate 10 (PNum (Fin 5400)))
      = Inr (replicate 7 ?r, replicate 3 ?r, replicate 7 (PNum (Fin 5400)),
             replicate 3 (PNum (Fin 5400)))"
    by (simp add: sample_env_def)
  have fi: "fit sample_env (replicate 7 ?r) (replicate 7 (PNum (Fin 5400)))
      = Inr (FittedRegressor 6 (\<lambda>row. 5400) [0, 0, 0, 0, 0, 0])"
    by (simp add: sample_env_def sample_fit_def stump_regressor_def list_all_iff)
  have pr: "regressor_predict (FittedRegressor 6 (\<lambda>row. 5400) [0, 0, 0, 0, 0, 0])
        (replicate 3 ?r) = Inr (replicate 3 (Fin 5400))"
    by (simp add: regressor_predict_def list_all_iff sample_features_def)
  have "snd (train_model_body sample_env ?s (replicate 10 sample_example))
      = Inr (Success 0 (zip feature_names [0, 0, 0, 0, 0, 0])
               (length (replicate 10 sample_features)) (length (replicate 3 ?r)))"
    by (rule train_model_body_success [OF cs _ _ _ fs sp fi pr])
      (simp_all add: sample_env_def)
  then have c: "snd (train_model sample_env ?s (replicate 10 sample_example))
       = Inr (Success 0 (zip feature_names [0, 0, 0, 0, 0, 0]) 10 3)"
    by (simp add: train_model_snd)
  have z: "sum_list (map snd (zip feature_names [0, 0, 0, 0, 0, 0 :: real])) = 0"
    by (simp add: feature_names_def)
  from nine_valid a t10 b s10 c z show ?thesis by blast
qed


text \<open>
  Claim C2, amended. \<^verbatim>\<open>train_model\<close> never raises. With fewer than ten valid records
  it returns an error dict: "No training data" for an empty list, "Insufficient training
  data" otherwise, or the text of the \<^verbatim>\<open>TypeError\<close> of a record whose features have no
  length. With ten or more valid records, when the numpy and scikit-learn steps succeed on
  them and the fitted regressor reports its six importances, it returns success with a
  non-empty importance map: the six feature names in order, each with the regressor's
  importance, so the values sum to the sum of those importances.
\<close>

theorem train_model_outcomes:
  "(\<exists>r. snd (train_model E s d) = Inr r)
   \<and> (length (filter valid_example d) < 10 \<longrightarrow>
        snd (train_model E s d) = Inr (ErrorMessage ''No training data'')
        \<or> snd (train_model E s d) = Inr (ErrorMessage ''Insufficient training data'')
        \<or> snd (train_model E s d) = Inr (ErrorOf TypeError))
   \<and> (collect_loop d [] [] = Inr (X, y) \<and> 10 \<le> length X
        \<and> np_array E X = Inr Xa \<and> np_array E y = Inr ya
        \<and> fit_transform E Xa = Inr (imp, X_imputed)
        \<and> train_test_split E X_imputed ya = Inr (X_train, X_test, y_train, y_test)
        \<and> fit E X_train y_train = Inr (FittedRegressor n f imps) \<and> length imps = 6
        \<and> regressor_predict (FittedRegressor n f imps) X_test = Inr y_pred
        \<and> mean_absolute_error E y_test y_pred = Inr v
      \<longrightarrow> length X = length (filter valid_example d)
          \<and> (\<exists>fi. snd (train_model E s d)
                     = Inr (Success v fi (length X) (length X_test))
                \<and> fi \<noteq> []
                \<and> map fst fi = feature_names
                \<and> map snd fi = imps
                \<and> sum_list (map snd fi) = sum_list imps))"
proof (intro conjI impI)
  show "\<exists>r. snd (train_model E s d) = Inr r" by (rule train_model_returns)
next
  assume "length (filter valid_example d) < 10"
  from train_model_body_few [OF this, of E s]
  show "snd (train_model E s d) = Inr (ErrorMessage ''No training data'')
        \<or> snd (train_model E s d) = Inr (ErrorMessage ''Insufficient training data'')
        \<or> snd (train_model E s d) = Inr (ErrorOf TypeError)"
    by (auto simp: train_model_def)
next
  assume h: "collect_loop d [] [] = Inr (X, y) \<and> 10 \<le> length X
        \<and> np_array E X = Inr Xa \<and> np_array E y = Inr ya
        \<and> fit_transform E Xa = Inr (imp, X_imputed)
        \<and> train_test_split E X_imputed ya = Inr (X_train, X_test, y_train, y_test)
        \<and> fit E X_train y_train = Inr (FittedRegressor n f imps) \<and> length imps = 6
        \<and> regressor_predict (FittedRegressor n f imps) X_test = Inr y_pred
        \<and> mean_absolute_error E y_test y_pred = Inr v"
  then have "snd (train_model_body E s d)
           = Inr (Success v (zip feature_names imps) (length X) (length X_test))"
    using train_model_body_success [of d X y E Xa ya imp X_imputed X_train X_test
        y_train y_test n f imps y_pred v s]
    by blast
  then have r: "snd (train_model E s d)
            = Inr (Success v (zip feature_names imps) (length X) (length X_test))"
    by (simp add: train_model_snd)
  from h have six: "length imps = 6" by blast
  from h show "length X = length (filter valid_example d)"
    using collect_loop_length [of d "[]" "[]" X y] by simp
  show "\<exists>fi. snd (train_model E s d) = Inr (Success v fi (length X) (length X_test))
                \<and> fi \<noteq> []
                \<and> map fst fi = feature_names
                \<and> map snd fi = imps
                \<and> sum_list (map snd fi) = sum_list imps"
    using r zip_names_six [OF six]
    by (intro exI [of _ "zip feature_names imps"]) simp
qed

theorem train_model_outcomes_witness:
  "length (filter valid_example (replicate 9 sample_example)) < 10
   \<and> (snd (train_model sample_env (init NoFile 0) (replicate 9 sample_example))
         = Inr (ErrorMessage ''No training data'')
       \<or> snd (train_model sample_env (init NoFile 0) (replicate 9 sample_example))
         = Inr (ErrorMessage ''Insufficient training data'')
       \<or> snd (train_model sample_env (init NoFile 0) (replicate 9 sample_example))
         = Inr (ErrorOf TypeError))
   \<and> (\<exists>fi. snd (train_model sample_env (init NoFile 0)
                 (map training_record
                    [5400, 5401, 5402, 5403, 5404, 5405, 5406, 5407, 5408, 5409]))
              = Inr (Success 0 fi 10 3)
          \<and> fi \<noteq> []
          \<and> map fst fi = feature_names
          \<and> map snd fi = [0.5, 0.1, 0.1, 0.1, 0.1, 0.1]
          \<and> sum_list (map snd fi) = 1)"
proof -
  let ?ts = "[5400, 5401, 5402, 5403, 5404, 5405, 5406, 5407, 5408, 5409 :: real]"
  let ?d = "map training_record ?ts"
  let ?X = "replicate (length ?ts) sample_features"
  let ?y = "map (\<lambda>t. PNum (Fin t)) ?ts"
  let ?Xi = "map pyrow ?X"
  let ?imp = "FittedImputer (map column_statistic (transpose ?Xi))"
  let ?imps = "[0.5, 0.1, 0.1, 0.1, 0.1, 0.1 :: real]"
  have c: "collect_loop ?d [] [] = Inr (?X, ?y)"
    using collect_loop_records [of ?ts "[]" "[]"] by (simp only: append_Nil)
  have n: "np_array sample_env ?X = Inr ?X" "np_array sample_env ?y = Inr ?y"
    by (simp_all add: sample_env_def)
  have ft: "fit_transform sample_env ?X = Inr (?imp, ?Xi)"
    by (simp add: sample_env_def sample_fit_transform_def list_all_iff sample_features_def)
  have sp: "train_test_split sample_env ?Xi ?y
      = Inr (take 7 ?Xi, drop 7 ?Xi, take 7 ?y, drop 7 ?y)"
    by (simp add: sample_env_def)
  have fi: "fit sample_env (take 7 ?Xi) (take 7 ?y)
      = Inr (FittedRegressor 6 (\<lambda>row. 5400) ?imps)"
    by (simp add: sample_env_def sample_fit_def sample_regressor_def)
  have pr: "regressor_predict (FittedRegressor 6 (\<lambda>row. 5400) ?imps) (drop 7 ?Xi)
      = Inr ([Fin 5400, Fin 5400, Fin 5400])"
    by (simp add: regressor_predict_def list_all_iff sample_features_def)
  have m: "mean_absolute_error sample_env (drop 7 ?y) ([Fin 5400, Fin 5400, Fin 5400]) = Inr 0"
    by (simp add: sample_env_def)
  have l: "10 \<le> length ?X" "length ?imps = 6" by simp_all
  have hyp: "collect_loop ?d [] [] = Inr (?X, ?y) \<and> 10 \<le> length ?X
        \<and> np_array sample_env ?X = Inr ?X \<and> np_array sample_env ?y = Inr ?y
        \<and> fit_transform sample_env ?X = Inr (?imp, ?Xi)
        \<and> train_test_split sample_env ?Xi ?y
             = Inr (take 7 ?Xi, drop 7 ?Xi, take 7 ?y, drop 7 ?y)
        \<and> fit sample_env (take 7 ?Xi) (take 7 ?y)
             = Inr (FittedRegressor 6 (\<lambda>row. 5400) ?imps) \<and> length ?imps = 6
        \<and> regressor_predict (FittedRegressor 6 (\<lambda>row. 5400) ?imps) (drop 7 ?Xi)
             = Inr [Fin 5400, Fin 5400, Fin 5400]
        \<and> mean_absolute_error sample_env (drop 7 ?y) [Fin 5400, Fin 5400, Fin 5400] = Inr 0"
    by (intro conjI) (fact c n ft sp fi pr m l)+
  note T = train_model_outcomes [of sample_env "init NoFile 0" ?d ?X ?y ?X ?y ?imp
      ?Xi "take 7 ?Xi" "drop 7 ?Xi" "take 7 ?y" "drop 7 ?y" 6
      "\<lambda>row. 5400" ?imps "[Fin 5400, Fin 5400, Fin 5400]" 0]
  from T [THEN conjunct2, THEN conjunct2, THEN mp, OF hyp, THEN conjunct2]
  obtain fi where fi: "snd (train_model sample_env (init NoFile 0) ?d)
        = Inr (Success 0 fi (length ?X) (length (drop 7 ?Xi)))
      \<and> fi \<noteq> [] \<and> map fst fi = feature_names \<and> map snd fi = ?imps
      \<and> sum_list (map snd fi) = sum_list ?imps"
    ..
  have len: "length ?X = 10" "length (drop 7 ?Xi) = 3" "sum_list ?imps = 1" by simp_all
  have p: "\<exists>fi. snd (train_model sample_env (init NoFile 0) ?d) = Inr (Success 0 fi 10 3)
          \<and> fi \<noteq> []
          \<and> map fst fi = feature_names
          \<and> map snd fi = ?imps
          \<and> sum_list (map snd fi) = 1"
    using fi unfolding len by (rule exI [of _ fi])
  have q: "snd (train_model sample_env (init NoFile 0) (replicate 9 sample_example))
         = Inr (ErrorMessage ''No training data'')
       \<or> snd (train_model sample_env (init NoFile 0) (replicate 9 sample_example))
         = Inr (ErrorMessage ''Insufficient training data'')
       \<or> snd (train_model sample_env (init NoFile 0) (replicate 9 sample_example))
         = Inr (ErrorOf TypeError)"
    using train_model_outcomes [of sample_env "init NoFile 0" "replicate 9 sample_example"]
      nine_valid
    by simp
  from nine_valid p q show ?thesis by simp
qed

section \<open>Prediction without a trained model\<close>

lemma impute_unfitted:
  "imputer s = Some UnfittedImputer \<Longrightarrow> impute s X = (s, Inl NotFittedError)"
  by (simp add: impute_def imputer_transform_def)

lemma predict_race_unfitted_imputer:
  assumes "imputer s = Some UnfittedImputer"
  shows "snd (predict_race E s year event round_num weights race_datetime) = Inr []"
proof -
  define q where "q = get_qualifying_predictions E year event (rng_pos s)"
  define fl where "fl = features_loop E driver_to_team event
     (race_weather E event race_datetime) (get_clean_air_pace_data E year event) (fst q) (snd q)"
  define s1 where "s1 = s\<lparr> rng_pos := snd fl \<rparr>"
  have i: "impute s1 (map row_values (fst (fst fl))) = (s1, Inl NotFittedError)"
    using assms by (intro impute_unfitted) (simp add: s1_def)
  have "predict_race E s year event round_num weights race_datetime
      = (if fst (fst fl) = [] then (s1, Inr [])
         else case impute s1 (map row_values (fst (fst fl))) of
                (s2, Inl e) \<Rightarrow> (s2, Inr [])
              | (s2, Inr features_imputed) \<Rightarrow>
                  (case raw_times s2 (fst (fst fl)) (snd (fst fl)) features_imputed of
                     Inl e \<Rightarrow> (s2, Inr [])
                   | Inr predicted_times \<Rightarrow>
                       (case apply_weight_adjustments E predicted_times (fst (fst fl)) (snd (fst fl))
                               weights (rng_pos s2) of
                          (Inl e, k3) \<Rightarrow> (s2\<lparr> rng_pos := k3 \<rparr>, Inr [])
                        | (Inr adjusted_times, k3) \<Rightarrow>
                            (case times_to_predictions E (snd (fst fl)) adjusted_times of
                               Inl e \<Rightarrow> (s2\<lparr> rng_pos := k3 \<rparr>, Inr [])
                             | Inr predictions \<Rightarrow>
                                 (s2\<lparr> rng_pos := k3 \<rparr>,
                                  Inr (py_sorted predicted_time predictions))))))"
    unfolding predict_race_def Let_def case_prod_beta q_def fl_def s1_def ..
  then show ?thesis by (simp only: i) simp
qed

lemma init_default_estimators:
  "imputer (init NoFile k) = Some UnfittedImputer"
  "imputer (init Unloadable k) = Some UnfittedImputer"
  "model (init NoFile k) = Some UnfittedRegressor"
  "model (init Unloadable k) = Some UnfittedRegressor"
  by (simp_all add: init_def load_model_def create_default_model_def)

lemma raw_times_no_model:
  "model s = None \<Longrightarrow>
     raw_times s features_df drivers X
       = Inr (map (\<lambda>row. fmul (fmul (fadd (col_qualifying_time row) (Fin 20))
                                     (fsub (Fin 2) (col_team_performance_score row)))
                               (fadd (Fin 1) (fmul (col_rain_probability row) (Fin 0.1))))
                features_df)"
  by (simp add: raw_times_def create_mock_predictions_def mock_time_def Let_def)

text \<open>
  Claim C1. The heuristic of \<^verbatim>\<open>_create_mock_predictions\<close> is the documented formula
  (\<open>raw_times_no_model\<close>), but it is guarded by \<^verbatim>\<open>self.model is None\<close>. A service
  constructed without a loadable model file holds the default unfitted regressor and
  imputer instead, so \<^verbatim>\<open>predict_race\<close> fails in \<^verbatim>\<open>imputer.transform\<close>, the handler
  swallows the exception, and the result is the empty list: no competitor gets a
  prediction.
\<close>

theorem predict_race_without_trained_model:
  "model (init NoFile k) = Some UnfittedRegressor
   \<and> imputer (init NoFile k) = Some UnfittedImputer
   \<and> snd (predict_race E (init NoFile k) year event round_num weights race_datetime) = Inr []
   \<and> snd (predict_race E (init Unloadable k) year event round_num weights race_datetime)
        = Inr []"
  by (simp add: init_default_estimators predict_race_unfitted_imputer)

section \<open>Weight adjustment\<close>

lemma fadd_zero_right: "fadd t (Fin 0) = t"
  by (cases t) simp_all

lemma z_score_finite:
  "is_finite v \<Longrightarrow> calculate_z_score v (Fin 0) (Fin 1) = v"
  by (cases v) (simp_all add: calculate_z_score_def fsub_def)

lemma adjustment_zero:
  assumes "track_suitability w = PNum (Fin 0)" "clean_air_pace w = PNum (Fin 0)"
    "qualifying_importance w = PNum (Fin 0)" "team_form w = PNum (Fin 0)"
    "weather_impact w = PNum (Fin 0)"
    and "overlay_cells_finite row"
  shows "adjustment w row = Inr (Fin 0)"
proof -
  from assms(6) obtain a b c d e where cells:
    "col_average_position_change row = Fin a" "col_clean_air_pace row = Fin b"
    "col_qualifying_time row = Fin c" "col_team_performance_score row = Fin d"
    "col_rain_probability row = Fin e"
    unfolding overlay_cells_finite_def
    by (metis is_finite.elims(2))
  show ?thesis
    unfolding adjustment_def Let_def assms(1-5) cells
    by (simp add: bind_def calculate_z_score_def fsub_def)
qed

lemma adjust_loop_zero:
  assumes a: "\<And>j. j < length df \<Longrightarrow> adjustment w (df ! j) = Inr (Fin 0)"
    and c: "\<not> truthy (chaos_mode w)"
  shows "i + length zs \<le> length df \<Longrightarrow> i + length zs \<le> length ts
     \<Longrightarrow> (\<forall>j < length zs. fst (zs ! j) = ts ! (i + j))
     \<Longrightarrow> adjust_loop E w df i zs ts k = (Inr ts, k)"
proof (induction zs arbitrary: i)
  case Nil
  then show ?case by simp
next
  case (Cons z zs)
  obtain t d where z: "z = (t, d)" by (cases z)
  from Cons.prems have i: "i < length df" "i < length ts" by simp_all
  from Cons.prems(3) have "fst ((z # zs) ! 0) = ts ! (i + 0)" by blast
  with z have t: "t = ts ! i" by simp
  have rest: "\<forall>j < length zs. fst (zs ! j) = ts ! (Suc i + j)"
  proof (intro allI impI)
    fix j assume "j < length zs"
    then have "Suc j < length (z # zs)" by simp
    with Cons.prems(3) have "fst ((z # zs) ! Suc j) = ts ! (i + Suc j)" by blast
    then show "fst (zs ! j) = ts ! (Suc i + j)" by simp
  qed
  have ih: "adjust_loop E w df (Suc i) zs ts k = (Inr ts, k)"
    using Cons.prems(1,2) rest by (intro Cons.IH) simp_all
  have upd: "ts[i := fadd (ts ! i) (Fin 0)] = ts" by (simp add: fadd_zero_right)
  show ?case
    unfolding z adjust_loop.simps a [OF i(1)] using i c ih upd t by (simp add: Let_def)
qed

lemma quali_loop_keeps_nan:
  "quali_loop [\<lparr> row_driver = ''TSU'', row_q1 = Some (Fin 72.1), row_q2 = Some (Fin 71.9),
                 row_q3 = Some NaN \<rparr>] Map.empty ''TSU'' = Some NaN"
  by (simp add: py_or_def truthy_time_def)

text \<open>
  Claim C4, as stated, fails: a NaN cell survives a zero weight. For a driver whose
  qualifying time is missing the product \<open>0 * NaN * 0.1\<close> is NaN, and so is the adjusted
  time, whatever the raw time was.
\<close>

theorem zero_weights_nan_counterexample:
  "apply_weight_adjustments sample_env [Fin 5400] [nan_row] [''TSU''] zero_weights 0
     = (Inr [NaN], 0)"
  by (simp add: apply_weight_adjustments_def zero_weights_def nan_row_def sample_row_def
      adjustment_def calculate_z_score_def fsub_def bind_def Let_def)

text \<open>
  Claim C4, amended. With the five weight coefficients 0 and chaos mode false, the
  adjustment step returns the raw times unchanged (a NaN raw time stays NaN) and draws no
  random number, for every vector of raw times and every feature matrix that has a row
  for each competitor the loop visits and whose five overlay features are finite numbers
  (neither NaN nor an infinity).
\<close>

theorem zero_weights_identity:
  assumes "track_suitability w = PNum (Fin 0)" "clean_air_pace w = PNum (Fin 0)"
    "qualifying_importance w = PNum (Fin 0)" "team_form w = PNum (Fin 0)"
    "weather_impact w = PNum (Fin 0)" "chaos_mode w = PBool False"
    "min (length predicted_times) (length drivers) \<le> length features_df"
    "list_all overlay_cells_finite features_df"
  shows "apply_weight_adjustments E predicted_times features_df drivers w k
           = (Inr predicted_times, k)"
proof -
  have c: "\<not> truthy (chaos_mode w)" using assms(6) by simp
  have a: "\<And>j. j < length features_df \<Longrightarrow> adjustment w (features_df ! j) = Inr (Fin 0)"
    using assms(8) by (intro adjustment_zero [OF assms(1-5)]) (simp add: list_all_length)
  have n: "\<forall>j < length (zip predicted_times drivers).
             fst (zip predicted_times drivers ! j) = predicted_times ! (0 + j)"
    by simp
  have l: "0 + length (zip predicted_times drivers) \<le> length features_df"
    "0 + length (zip predicted_times drivers) \<le> length predicted_times"
    using assms(7) by simp_all
  show ?thesis
    unfolding apply_weight_adjustments_def
    by (rule adjust_loop_zero [OF a c l n])
qed

lemma zero_weights_fields:
  "track_suitability zero_weights = PNum (Fin 0)" "clean_air_pace zero_weights = PNum (Fin 0)"
  "qualifying_importance zero_weights = PNum (Fin 0)" "team_form zero_weights = PNum (Fin 0)"
  "weather_impact zero_weights = PNum (Fin 0)" "chaos_mode zero_weights = PBool False"
  by (simp_all add: zero_weights_def)

theorem zero_weights_identity_witness:
  "min (length [Fin 5400, NaN, PInf]) (length [''VER'', ''NOR'', ''PIA''])
     \<le> length [sample_row, sample_row, sample_row]
   \<and> list_all overlay_cells_finite [sample_row, sample_row, sample_row]
   \<and> apply_weight_adjustments sample_env [Fin 5400, NaN, PInf]
        [sample_row, sample_row, sample_row] [''VER'', ''NOR'', ''PIA''] zero_weights 0
      = (Inr [Fin 5400, NaN, PInf], 0)"
proof -
  have m: "min (length [Fin 5400, NaN, PInf]) (length [''VER'', ''NOR'', ''PIA''])
     \<le> length [sample_row, sample_row, sample_row]" by simp
  have f: "list_all overlay_cells_finite [sample_row, sample_row, sample_row]"
    by (simp add: overlay_cells_finite_def sample_row_def)
  from zero_weights_identity [OF zero_weights_fields m f] m f show ?thesis by blast
qed

section \<open>Ranking\<close>

lemma win_prob_pos: "0 < win_prob i"
  by (simp add: win_prob_def max_def)

lemma win_prob_mono: "i \<le> j \<Longrightarrow> win_prob j \<le> win_prob i"
  by (simp add: win_prob_def max_def)

lemma top3_prob_floor: "3 \<le> i \<Longrightarrow> 0.05 \<le> top3_prob i"
  by (simp add: top3_prob_def max_def)

lemma top3_prob_mono_podium: "i \<le> j \<Longrightarrow> j < 3 \<Longrightarrow> top3_prob j \<le> top3_prob i"
  by (simp add: top3_prob_def)

lemma top3_prob_mono_rest: "3 \<le> i \<Longrightarrow> i \<le> j \<Longrightarrow> top3_prob j \<le> top3_prob i"
  by (simp add: top3_prob_def max_def)

lemma predictions_loop_ok:
  "\<forall>idx \<in> set idxs. idx < length drivers \<and> idx < length tms \<Longrightarrow>
   \<exists>ps. predictions_loop drivers tms i idxs = Inr ps
      \<and> length ps = length idxs
      \<and> (\<forall>j < length idxs.
            driver (ps ! j) = drivers ! (idxs ! j)
          \<and> predicted_time (ps ! j) = tms ! (idxs ! j)
          \<and> win_probability (ps ! j) = win_prob (i + j)
          \<and> top3_probability (ps ! j) = top3_prob (i + j))"
proof (induction idxs arbitrary: i)
  case Nil
  then show ?case by simp
next
  case (Cons idx rest)
  from Cons.prems have r: "\<forall>idx \<in> set rest. idx < length drivers \<and> idx < length tms"
    and x: "idx < length drivers" "idx < length tms" by simp_all
  from Cons.IH [OF r, of "Suc i"] obtain ps where
    ps: "predictions_loop drivers tms (Suc i) rest = Inr ps" "length ps = length rest"
    and nth: "\<forall>j < length rest.
            driver (ps ! j) = drivers ! (rest ! j)
          \<and> predicted_time (ps ! j) = tms ! (rest ! j)
          \<and> win_probability (ps ! j) = win_prob (Suc i + j)
          \<and> top3_probability (ps ! j) = top3_prob (Suc i + j)"
    by blast
  let ?p = "\<lparr> driver = drivers ! idx,
              team = dict_get (map_of driver_to_team) (drivers ! idx) ''Unknown'',
              predicted_time = tms ! idx,
              win_probability = win_prob i,
              top3_probability = top3_prob i \<rparr>"
  have e: "predictions_loop drivers tms i (idx # rest) = Inr (?p # ps)"
    using x ps(1) by (simp add: bind_def)
  have "\<forall>j < length (idx # rest).
            driver ((?p # ps) ! j) = drivers ! ((idx # rest) ! j)
          \<and> predicted_time ((?p # ps) ! j) = tms ! ((idx # rest) ! j)
          \<and> win_probability ((?p # ps) ! j) = win_prob (i + j)
          \<and> top3_probability ((?p # ps) ! j) = top3_prob (i + j)"
  proof (intro allI impI)
    fix j assume "j < length (idx # rest)"
    then show "driver ((?p # ps) ! j) = drivers ! ((idx # rest) ! j)
          \<and> predicted_time ((?p # ps) ! j) = tms ! ((idx # rest) ! j)
          \<and> win_probability ((?p # ps) ! j) = win_prob (i + j)
          \<and> top3_probability ((?p # ps) ! j) = top3_prob (i + j)"
      using nth by (cases j) simp_all
  qed
  with e ps(2) show ?case by simp
qed

lemma argsort_spec_length:
  assumes "argsort_spec f ts"
  shows "length (f ts) = length ts"
proof -
  from assms have "distinct (f ts)" "set (f ts) = {0..<length ts}"
    by (simp_all add: argsort_spec_def)
  then have "length (f ts) = card {0..<length ts}"
    using distinct_card [of "f ts"] by simp
  then show ?thesis by simp
qed

lemma ranked:
  assumes a: "argsort_spec (argsort E) tms" and l: "length drivers = length tms"
  shows "\<exists>ps. times_to_predictions E drivers tms = Inr ps
      \<and> length ps = length tms
      \<and> map driver ps = map (\<lambda>i. drivers ! i) (argsort E tms)
      \<and> map predicted_time ps = map (\<lambda>i. tms ! i) (argsort E tms)
      \<and> py_sorted predicted_time ps = ps
      \<and> (\<forall>j < length ps. win_probability (ps ! j) = win_prob j
             \<and> top3_probability (ps ! j) = top3_prob j)"
proof -
  from a have "set (argsort E tms) = {0..<length tms}"
    by (simp add: argsort_spec_def)
  with l have "\<forall>idx \<in> set (argsort E tms). idx < length drivers \<and> idx < length tms"
    by simp
  from predictions_loop_ok [OF this, of 0] obtain ps where
    ps: "times_to_predictions E drivers tms = Inr ps"
        "length ps = length (argsort E tms)"
    and nth: "\<forall>j < length (argsort E tms).
            driver (ps ! j) = drivers ! (argsort E tms ! j)
          \<and> predicted_time (ps ! j) = tms ! (argsort E tms ! j)
          \<and> win_probability (ps ! j) = win_prob (0 + j)
          \<and> top3_probability (ps ! j) = top3_prob (0 + j)"
    unfolding times_to_predictions_def by blast
  have len: "length ps = length tms"
    using ps(2) argsort_spec_length [OF a] by simp
  have d: "map driver ps = map (\<lambda>i. drivers ! i) (argsort E tms)"
    using ps(2) nth by (intro nth_equalityI) simp_all
  have t: "map predicted_time ps = map (\<lambda>i. tms ! i) (argsort E tms)"
    using ps(2) nth by (intro nth_equalityI) simp_all
  from a have "sorted (map (\<lambda>i. tms ! i) (argsort E tms))"
    by (simp add: argsort_spec_def)
  with t have "sorted (map predicted_time ps)" by simp
  then have s: "py_sorted predicted_time ps = ps"
    unfolding py_sorted_def by (rule sort_key_id_if_sorted)
  from nth ps(2) have "\<forall>j < length ps. win_probability (ps ! j) = win_prob j
             \<and> top3_probability (ps ! j) = top3_prob j" by simp
  with ps(1) len d t s show ?thesis by blast
qed


lemma argsort_stable_spec: "argsort_spec argsort_stable ts"
  by (simp add: argsort_spec_def argsort_stable_def sorted_sort_key)

lemma argsort_reversing_spec: "argsort_spec argsort_reversing ts"
  by (simp add: argsort_spec_def argsort_reversing_def sorted_sort_key)

lemma argsort_reversing_ties: "argsort_reversing (replicate n c) = rev [0..<n]"
proof -
  have "map (\<lambda>i. replicate n c ! i) (rev [0..<n]) = replicate n c"
    by (intro nth_equalityI) (simp_all add: rev_nth)
  then have "sorted (map (\<lambda>i. replicate n c ! i) (rev [0..<n]))"
    by (simp add: sorted_replicate)
  then show ?thesis
    unfolding argsort_reversing_def length_replicate by (rule sort_key_id_if_sorted)
qed

lemma predict_race_cases:
  "snd (predict_race E s year event round_num weights race_datetime) = Inr []
   \<or> (\<exists>ps. snd (predict_race E s year event round_num weights race_datetime)
          = Inr (py_sorted predicted_time ps))"
  unfolding predict_race_def Let_def case_prod_beta
  by (auto split: sum.splits)

lemma predict_race_sorted:
  assumes "snd (predict_race E s year event round_num weights race_datetime) = Inr out"
  shows "sorted (map predicted_time out)"
  using predict_race_cases [of E s year event round_num weights race_datetime] assms
  by (auto simp: py_sorted_def sorted_sort_key)

text \<open>
  Claim C5. For every ranked output, the entry at rank index \<open>i\<close> has win probability
  \<open>max(0.01, 0.95 - i * 0.05)\<close> and podium probability \<open>0.8 - i * 0.1\<close> for \<open>i < 3\<close>,
  \<open>max(0.05, 0.5 - (i - 3) * 0.05)\<close> from 3 on. The win probability is positive and does
  not increase with the rank; the podium probability does not increase within ranks
  0..2 nor within ranks 3 and up, where it is at least 0.05. The final
  \<^verbatim>\<open>sorted\<close> of \<^verbatim>\<open>predict_race\<close> leaves the ranked list as it is, so the rank index is
  the position in the output.
\<close>

theorem rank_probabilities:
  assumes "argsort_spec (argsort E) tms" "length drivers = length tms"
  shows "\<exists>ps. times_to_predictions E drivers tms = Inr ps
      \<and> py_sorted predicted_time ps = ps
      \<and> length ps = length tms
      \<and> (\<forall>i < length ps.
            win_probability (ps ! i) = max 0.01 (0.95 - real i * 0.05)
          \<and> top3_probability (ps ! i)
              = (if i < 3 then 0.8 - real i * 0.1 else max 0.05 (0.5 - real (i - 3) * 0.05))
          \<and> 0 < win_probability (ps ! i)
          \<and> (3 \<le> i \<longrightarrow> 0.05 \<le> top3_probability (ps ! i))
          \<and> (\<forall>j < length ps. i \<le> j \<longrightarrow>
                 win_probability (ps ! j) \<le> win_probability (ps ! i)
               \<and> (j < 3 \<or> 3 \<le> i \<longrightarrow>
                    top3_probability (ps ! j) \<le> top3_probability (ps ! i))))"
proof -
  from ranked [OF assms] obtain ps where
    ps: "times_to_predictions E drivers tms = Inr ps" "length ps = length tms"
        "py_sorted predicted_time ps = ps"
    and pr: "\<forall>j < length ps. win_probability (ps ! j) = win_prob j
             \<and> top3_probability (ps ! j) = top3_prob j"
    by blast
  have "\<forall>i < length ps.
            win_probability (ps ! i) = max 0.01 (0.95 - real i * 0.05)
          \<and> top3_probability (ps ! i)
              = (if i < 3 then 0.8 - real i * 0.1 else max 0.05 (0.5 - real (i - 3) * 0.05))
          \<and> 0 < win_probability (ps ! i)
          \<and> (3 \<le> i \<longrightarrow> 0.05 \<le> top3_probability (ps ! i))
          \<and> (\<forall>j < length ps. i \<le> j \<longrightarrow>
                 win_probability (ps ! j) \<le> win_probability (ps ! i)
               \<and> (j < 3 \<or> 3 \<le> i \<longrightarrow>
                    top3_probability (ps ! j) \<le> top3_probability (ps ! i)))"
  proof (intro allI impI conjI)
    fix i assume i: "i < length ps"
    with pr have wi: "win_probability (ps ! i) = win_prob i"
      and ti: "top3_probability (ps ! i) = top3_prob i" by simp_all
    show "win_probability (ps ! i) = max 0.01 (0.95 - real i * 0.05)"
      using wi by (simp add: win_prob_def)
    show "top3_probability (ps ! i)
              = (if i < 3 then 0.8 - real i * 0.1 else max 0.05 (0.5 - real (i - 3) * 0.05))"
      using ti by (simp add: top3_prob_def)
    show "0 < win_probability (ps ! i)" using wi win_prob_pos by simp
    show "0.05 \<le> top3_probability (ps ! i)" if "3 \<le> i"
      using ti top3_prob_floor [OF that] by simp
    fix j assume j: "j < length ps" "i \<le> j"
    with pr have wj: "win_probability (ps ! j) = win_prob j"
      and tj: "top3_probability (ps ! j) = top3_prob j" by simp_all
    show "win_probability (ps ! j) \<le> win_probability (ps ! i)"
      using wi wj win_prob_mono [OF j(2)] by simp
    show "top3_probability (ps ! j) \<le> top3_probability (ps ! i)" if "j < 3 \<or> 3 \<le> i"
      using that ti tj top3_prob_mono_podium [OF j(2)] top3_prob_mono_rest [OF _ j(2)]
      by auto
  qed
  with ps show ?thesis by blast
qed

theorem rank_probabilities_witness:
  "argsort_spec (argsort sample_env) [Fin 82, Fin 80, Fin 81, Fin 83]
   \<and> length [''VER'', ''NOR'', ''PIA'', ''LEC''] = length [Fin 82, Fin 80, Fin 81, Fin 83]
   \<and> (\<exists>ps. times_to_predictions sample_env [''VER'', ''NOR'', ''PIA'', ''LEC'']
              [Fin 82, Fin 80, Fin 81, Fin 83] = Inr ps
          \<and> length ps = 4
          \<and> win_probability (ps ! 0) = 0.95 \<and> top3_probability (ps ! 0) = 0.8
          \<and> win_probability (ps ! 3) = 0.8 \<and> top3_probability (ps ! 3) = 0.5)"
proof -
  have a: "argsort_spec (argsort sample_env) [Fin 82, Fin 80, Fin 81, Fin 83]"
    using argsort_stable_spec by (simp add: sample_env_def)
  have l: "length [''VER'', ''NOR'', ''PIA'', ''LEC''] = length [Fin 82, Fin 80, Fin 81, Fin 83]"
    by simp
  from rank_probabilities [OF a l] obtain ps where
    ps: "times_to_predictions sample_env [''VER'', ''NOR'', ''PIA'', ''LEC'']
              [Fin 82, Fin 80, Fin 81, Fin 83] = Inr ps" "length ps = 4"
    and pr: "\<forall>i < length ps.
            win_probability (ps ! i) = max 0.01 (0.95 - real i * 0.05)
          \<and> top3_probability (ps ! i)
              = (if i < 3 then 0.8 - real i * 0.1 else max 0.05 (0.5 - real (i - 3) * 0.05))"
    by auto
  from pr ps(2) have "win_probability (ps ! 0) = max 0.01 (0.95 - real 0 * 0.05)"
    "top3_probability (ps ! 0) = 0.8 - real 0 * 0.1"
    "win_probability (ps ! 3) = max 0.01 (0.95 - real 3 * 0.05)"
    "top3_probability (ps ! 3) = max 0.05 (0.5 - real (3 - 3) * 0.05)"
    by simp_all
  then have "win_probability (ps ! 0) = 0.95" "top3_probability (ps ! 0) = 0.8"
    "win_probability (ps ! 3) = 0.8" "top3_probability (ps ! 3) = 0.5"
    by simp_all
  with a l ps show ?thesis by blast
qed

lemma roster_length: "length driver_to_team = 19"
  by (simp add: driver_to_team_def)

text \<open>
  Claim C3, as stated, fails: nothing makes \<^verbatim>\<open>np.argsort\<close> list tied competitors in
  input order. With an argsort that sorts and lists equal elements from the back, the 19
  drivers of the roster with equal adjusted times come out in reverse roster order.
\<close>

theorem tie_order_counterexample:
  "argsort_spec argsort_reversing (replicate 19 (Fin 5400))
   \<and> (case times_to_predictions (sample_env\<lparr> argsort := argsort_reversing \<rparr>)
              (map fst driver_to_team) (replicate 19 (Fin 5400)) of
         Inl e \<Rightarrow> []
       | Inr ps \<Rightarrow> map driver (py_sorted predicted_time ps))
       = [''RIC'', ''ZHO'', ''BOT'', ''MAG'', ''COL'', ''ALB'', ''STR'', ''OCO'', ''HUL'',
          ''SAI'', ''TSU'', ''ALO'', ''GAS'', ''HAM'', ''RUS'', ''LEC'', ''PIA'', ''NOR'',
          ''VER'']"
proof -
  let ?E = "sample_env\<lparr> argsort := argsort_reversing \<rparr>"
  let ?ds = "map fst driver_to_team"
  have a: "argsort_spec (argsort ?E) (replicate 19 (Fin 5400))"
    using argsort_reversing_spec by simp
  have l: "length ?ds = length (replicate 19 (Fin 5400))"
    using roster_length by simp
  from ranked [OF a l] obtain ps where
    ps: "times_to_predictions ?E ?ds (replicate 19 (Fin 5400)) = Inr ps"
        "py_sorted predicted_time ps = ps"
        "map driver ps = map (\<lambda>i. ?ds ! i) (argsort ?E (replicate 19 (Fin 5400)))"
    by blast
  have r: "argsort ?E (replicate 19 (Fin 5400)) = rev [0..<length ?ds]"
    using roster_length by (simp add: argsort_reversing_ties)
  have "map (\<lambda>i. ?ds ! i) (rev [0..<length ?ds]) = rev (map (\<lambda>i. ?ds ! i) [0..<length ?ds])"
    by (rule rev_map [symmetric])
  also have "\<dots> = rev ?ds" by (simp only: map_nth)
  finally have "map driver ps = rev ?ds" using ps(3) r by simp
  then have "map driver (py_sorted predicted_time ps)
       = [''RIC'', ''ZHO'', ''BOT'', ''MAG'', ''COL'', ''ALB'', ''STR'', ''OCO'', ''HUL'',
          ''SAI'', ''TSU'', ''ALO'', ''GAS'', ''HAM'', ''RUS'', ''LEC'', ''PIA'', ''NOR'',
          ''VER'']"
    by (simp add: ps(2) driver_to_team_def)
  with ps(1) argsort_reversing_spec show ?thesis by simp
qed

text \<open>
  Claim C3, amended. The output is sorted ascending by adjusted time, and competitors
  appear in the order in which \<^verbatim>\<open>np.argsort\<close> lists their indices: the stable final
  \<^verbatim>\<open>sorted\<close> keeps that order, also among equal times. Whatever \<^verbatim>\<open>predict_race\<close>
  returns is sorted by predicted time.
\<close>

theorem ranking_sorted_in_argsort_order:
  assumes "argsort_spec (argsort E) tms" "length drivers = length tms"
  shows "(\<exists>ps. times_to_predictions E drivers tms = Inr ps
          \<and> sorted (map predicted_time (py_sorted predicted_time ps))
          \<and> map driver (py_sorted predicted_time ps)
               = map (\<lambda>i. drivers ! i) (argsort E tms)
          \<and> map predicted_time (py_sorted predicted_time ps)
               = map (\<lambda>i. tms ! i) (argsort E tms))
       \<and> (\<forall>out. snd (predict_race E s year event round_num weights race_datetime) = Inr out
             \<longrightarrow> sorted (map predicted_time out))"
proof -
  from ranked [OF assms] obtain ps where
    ps: "times_to_predictions E drivers tms = Inr ps"
        "py_sorted predicted_time ps = ps"
        "map driver ps = map (\<lambda>i. drivers ! i) (argsort E tms)"
        "map predicted_time ps = map (\<lambda>i. tms ! i) (argsort E tms)"
    by blast
  have "sorted (map predicted_time (py_sorted predicted_time ps))"
    by (simp add: py_sorted_def sorted_sort_key)
  with ps have A: "times_to_predictions E drivers tms = Inr ps
          \<and> sorted (map predicted_time (py_sorted predicted_time ps))
          \<and> map driver (py_sorted predicted_time ps)
               = map (\<lambda>i. drivers ! i) (argsort E tms)
          \<and> map predicted_time (py_sorted predicted_time ps)
               = map (\<lambda>i. tms ! i) (argsort E tms)"
    by simp
  have B: "\<forall>out. snd (predict_race E s year event round_num weights race_datetime) = Inr out
             \<longrightarrow> sorted (map predicted_time out)"
    by (intro allI impI) (rule predict_race_sorted)
  from A B show ?thesis by blast
qed

theorem ranking_sorted_in_argsort_order_witness:
  "argsort_spec (argsort sample_env) [Fin 82, Fin 80, Fin 80]
   \<and> length [''VER'', ''NOR'', ''PIA''] = length [Fin 82, Fin 80, Fin 80]
   \<and> (\<exists>ps. times_to_predictions sample_env [''VER'', ''NOR'', ''PIA''] [Fin 82, Fin 80, Fin 80] = Inr ps
          \<and> sorted (map predicted_time (py_sorted predicted_time ps))
          \<and> map driver (py_sorted predicted_time ps) = [''NOR'', ''PIA'', ''VER'']
          \<and> map predicted_time (py_sorted predicted_time ps) = [Fin 80, Fin 80, Fin 82])"
proof -
  have a: "argsort_spec (argsort sample_env) [Fin 82, Fin 80, Fin 80]"
    using argsort_stable_spec by (simp add: sample_env_def)
  have l: "length [''VER'', ''NOR'', ''PIA''] = length [Fin 82, Fin 80, Fin 80]"
    by simp
  have "[0..<length [Fin 82, Fin 80, Fin 80]] = [0, 1, 2]" by (simp add: upt_conv_Cons)
  then have i: "argsort sample_env [Fin 82, Fin 80, Fin 80] = [1, 2, 0]"
    by (simp add: sample_env_def argsort_stable_def less_eq_pyfloat_def)
  from ranking_sorted_in_argsort_order [OF a l, THEN conjunct1] obtain ps where
    ps: "times_to_predictions sample_env [''VER'', ''NOR'', ''PIA''] [Fin 82, Fin 80, Fin 80] = Inr ps
        \<and> sorted (map predicted_time (py_sorted predicted_time ps))
        \<and> map driver (py_sorted predicted_time ps)
               = map (\<lambda>i. [''VER'', ''NOR'', ''PIA''] ! i) (argsort sample_env [Fin 82, Fin 80, Fin 80])
        \<and> map predicted_time (py_sorted predicted_time ps)
               = map (\<lambda>i. [Fin 82, Fin 80, Fin 80] ! i) (argsort sample_env [Fin 82, Fin 80, Fin 80])"
    ..
  note p1 = ps [THEN conjunct1]
    and p2 = ps [THEN conjunct2, THEN conjunct1]
    and p3 = ps [THEN conjunct2, THEN conjunct2, THEN conjunct1]
    and p4 = ps [THEN conjunct2, THEN conjunct2, THEN conjunct2]
  have d: "map driver (py_sorted predicted_time ps) = [''NOR'', ''PIA'', ''VER'']"
    unfolding p3 i by simp
  have t: "map predicted_time (py_sorted predicted_time ps) = [Fin 80, Fin 80, Fin 82]"
    unfolding p4 i by simp
  show ?thesis
    apply (intro conjI)
      apply (rule a)
     apply (rule l)
    apply (rule exI [of _ ps])
    apply (intro conjI)
       apply (rule p1)
      apply (rule p2)
     apply (rule d)
    apply (rule t)
    done
qed

end
